theory Spec2Isabelle
  imports Main
begin

section \<open>Data model of the controller service (pkg/driver/controller.go)\<close>

subsection \<open>Errors and status codes\<close>

text \<open>
  A Go \<open>error\<close> value coming from a collaborator: the four sentinel errors of the
  \<open>cloud\<close> package, which the controller compares by identity, and any other error,
  kept with its text.
\<close>

datatype error =
    ErrNotFound
  | ErrMultiDisks
  | ErrDiskExistsDiffSize
  | ErrAlreadyExists
  | ErrOther string

text \<open>The gRPC status codes the controller uses.\<close>

datatype Code = InvalidArgument | NotFound | AlreadyExists | Internal | Unimplemented

text \<open>
  The message of a status: a literal (\<open>status.Error(c, "...")\<close>), the text of an error
  (\<open>status.Error(c, err.Error())\<close>), or a format string with its arguments
  (\<open>status.Errorf(c, "...", args)\<close>), kept unformatted.
\<close>

datatype Arg = ArgString string | ArgError error

datatype Message = Text string | ErrorText error | Formatted string "Arg list"

text \<open>
  What a handler returns in its \<open>error\<close> result: a gRPC status built by
  \<open>status.Error\<close>/\<open>status.Errorf\<close>, an error handed on as it was received
  (\<open>return nil, err\<close>), or no return at all because a nil pointer was dereferenced.
\<close>

datatype rpc_error = Status Code Message | Unwrapped error | NilPointerPanic

subsection \<open>Protocol (csi) and backend (cloud) records\<close>

datatype VolumeCapability_AccessMode_Mode =
    UNKNOWN
  | SINGLE_NODE_WRITER
  | SINGLE_NODE_READER_ONLY
  | MULTI_NODE_READER_ONLY
  | MULTI_NODE_SINGLE_WRITER
  | MULTI_NODE_MULTI_WRITER

record VolumeCapability_AccessMode =
  Mode :: VolumeCapability_AccessMode_Mode

text \<open>\<open>AccessMode\<close> is a pointer field: \<open>None\<close> is nil.\<close>

record VolumeCapability =
  AccessMode :: "VolumeCapability_AccessMode option"

text \<open>Both fields are \<open>int64\<close>.\<close>

record CapacityRange =
  RequiredBytes :: int
  LimitBytes :: int

record Topology =
  Segments :: "string \<rightharpoonup> string"

record TopologyRequirement =
  Requisite :: "Topology list"
  Preferred :: "Topology list"

text \<open>
  The \<open>oneof\<close> of a volume content source: no type set, a snapshot source (whose inner
  message, a pointer, carries the snapshot id), or a volume source.
\<close>

datatype VolumeContentSource =
    VolumeContentSource_None
  | VolumeContentSource_Snapshot "string option"
  | VolumeContentSource_Volume "string option"

record CreateVolumeRequest =
  cv_Name :: string
  cv_CapacityRange :: "CapacityRange option"
  cv_VolumeCapabilities :: "VolumeCapability list"
  cv_Parameters :: "string \<rightharpoonup> string"
  cv_VolumeContentSource :: "VolumeContentSource option"
  cv_AccessibilityRequirements :: "TopologyRequirement option"

record Volume =
  VolumeId :: string
  CapacityBytes :: int
  VolumeContext :: "string \<rightharpoonup> string"
  AccessibleTopology :: "Topology list"

record CreateVolumeResponse =
  Volume :: Volume

record DeleteVolumeRequest =
  dv_VolumeId :: string

record ControllerPublishVolumeRequest =
  cp_VolumeId :: string
  cp_NodeId :: string
  cp_VolumeCapability :: "VolumeCapability option"

record ControllerPublishVolumeResponse =
  PublishContext :: "string \<rightharpoonup> string"

record ValidateVolumeCapabilitiesRequest =
  vv_VolumeId :: string
  vv_VolumeCapabilities :: "VolumeCapability list"

record Confirmed =
  VolumeCapabilities :: "VolumeCapability list"

record ValidateVolumeCapabilitiesResponse =
  Confirmed :: "Confirmed option"

record CreateSnapshotRequest =
  cs_Name :: string
  cs_SourceVolumeId :: string

text \<open>A \<open>time.Time\<close> and a protocol timestamp, both as seconds and nanoseconds.\<close>

record Time =
  unix :: int
  nanosecond :: int

record Timestamp =
  Seconds :: int
  Nanos :: int

record csi_Snapshot =
  SnapshotId :: string
  SourceVolumeId :: string
  SizeBytes :: int
  csi_CreationTime :: "Timestamp option"
  csi_ReadyToUse :: bool

record CreateSnapshotResponse =
  Snapshot :: csi_Snapshot

record DeleteSnapshotRequest =
  ds_SnapshotId :: string

text \<open>The records of the \<open>cloud\<close> package, with the fields the controller reads or writes.\<close>

record Disk =
  VolumeID :: string
  CapacityGiB :: int
  AvailabilityZone :: string
  FsType :: string

record DiskOptions =
  do_CapacityBytes :: int
  do_Tags :: "string \<rightharpoonup> string"
  do_VolumeType :: string
  do_IOPSPerGB :: int
  do_AvailabilityZone :: string
  do_Encrypted :: bool
  do_KmsKeyID :: string
  do_SnapshotID :: string

record Snapshot =
  SnapshotID :: string
  SourceVolumeID :: string
  Size :: int
  CreationTime :: Time
  ReadyToUse :: bool

record SnapshotOptions =
  so_Tags :: "string \<rightharpoonup> string"

subsection \<open>The backend collaborator and the trace of calls made to it\<close>

text \<open>
  The driver's \<open>cloud\<close> field. Its implementation is outside the controller, so every
  operation is a parameter: a function on a backend state \<open>'s\<close> that gives the Go result
  tuple (a pointer result as an \<open>option\<close>, the \<open>error\<close> as an \<open>option\<close>, \<open>None\<close>
  being nil) and the next state.
\<close>

record 's Cloud =
  cloud_GetDiskByName :: "string \<Rightarrow> int \<Rightarrow> 's \<Rightarrow> (Disk option \<times> error option) \<times> 's"
  cloud_CreateDisk :: "string \<Rightarrow> DiskOptions \<Rightarrow> 's \<Rightarrow> (Disk option \<times> error option) \<times> 's"
  cloud_DeleteDisk :: "string \<Rightarrow> 's \<Rightarrow> (bool \<times> error option) \<times> 's"
  cloud_AttachDisk :: "string \<Rightarrow> string \<Rightarrow> 's \<Rightarrow> (string \<times> error option) \<times> 's"
  cloud_IsExistInstance :: "string \<Rightarrow> 's \<Rightarrow> bool \<times> 's"
  cloud_GetDiskByID :: "string \<Rightarrow> 's \<Rightarrow> (Disk option \<times> error option) \<times> 's"
  cloud_GetSnapshotByName :: "string \<Rightarrow> 's \<Rightarrow> (Snapshot option \<times> error option) \<times> 's"
  cloud_CreateSnapshot :: "string \<Rightarrow> SnapshotOptions \<Rightarrow> 's \<Rightarrow> (Snapshot option \<times> error option) \<times> 's"
  cloud_DeleteSnapshot :: "string \<Rightarrow> 's \<Rightarrow> (bool \<times> error option) \<times> 's"

datatype Call =
    GetDiskByName_call string int
  | CreateDisk_call string DiskOptions
  | DeleteDisk_call string
  | AttachDisk_call string string
  | IsExistInstance_call string
  | GetDiskByID_call string
  | GetSnapshotByName_call string
  | CreateSnapshot_call string SnapshotOptions
  | DeleteSnapshot_call string

text \<open>The world a handler runs in: the backend's state and the calls made so far, in order.\<close>

record 's World =
  backend :: 's
  calls :: "Call list"

definition invoke :: "Call \<Rightarrow> ('s \<Rightarrow> 'r \<times> 's) \<Rightarrow> 's World \<Rightarrow> 'r \<times> 's World" where
  "invoke c f w =
     (case f (backend w) of (r, s') \<Rightarrow> (r, \<lparr>backend = s', calls = calls w @ [c]\<rparr>))"

fun is_CreateDisk :: "Call \<Rightarrow> bool" where
  "is_CreateDisk (CreateDisk_call n opts) = True"
| "is_CreateDisk c = False"

fun is_CreateSnapshot :: "Call \<Rightarrow> bool" where
  "is_CreateSnapshot (CreateSnapshot_call v opts) = True"
| "is_CreateSnapshot c = False"

fun is_AttachDisk :: "Call \<Rightarrow> bool" where
  "is_AttachDisk (AttachDisk_call v n) = True"
| "is_AttachDisk c = False"

subsection \<open>Package-level names that the controller uses and does not define\<close>

text \<open>
  The parameter keys and constants of the \<open>driver\<close> and \<open>cloud\<close> packages, and the two
  library functions \<open>strconv.Atoi\<close> and \<open>ptypes.TimestampProto\<close>, with their Go result
  tuples. They are parameters of the model.
\<close>

record Pkg =
  FsTypeKey :: string
  VolumeTypeKey :: string
  IopsPerGBKey :: string
  EncryptedKey :: string
  KmsKeyIdKey :: string
  TopologyKey :: string
  DevicePathKey :: string
  VolumeTypeIO1 :: string
  VolumeNameTagKey :: string
  SnapshotNameTagKey :: string
  DefaultVolumeSize :: int
  Atoi :: "string \<Rightarrow> int \<times> error option"
  TimestampProto :: "Time \<Rightarrow> Timestamp option \<times> error option"

text \<open>Reading a Go \<open>map[string]string\<close>: a missing key gives the empty string.\<close>

definition index :: "(string \<rightharpoonup> string) \<Rightarrow> string \<Rightarrow> string" where
  "index m k = (case m k of None \<Rightarrow> [] | Some v \<Rightarrow> v)"

section \<open>Machine integers\<close>

text \<open>
  Sizes are \<open>int64\<close> in the source (line 57, and the byte counts of the protocol and of
  the backend records). They are held as integers in the range of \<open>int64\<close>; \<open>int64 x\<close>
  is the value that 64-bit two's-complement arithmetic gives where the exact result is
  \<open>x\<close>. Comparisons of values in the range are those of the integers.
\<close>

definition is_int64 :: "int \<Rightarrow> bool" where
  "is_int64 x \<longleftrightarrow> - (2 ^ 63) \<le> x \<and> x < 2 ^ 63"

definition int64 :: "int \<Rightarrow> int" where
  "int64 x = (x + 2 ^ 63) mod 2 ^ 64 - 2 ^ 63"

section \<open>Helpers of the \<open>util\<close> package\<close>

text \<open>
  Modelled from the spec: the allocation unit of the backend, which the \<open>util\<close> package
  defines outside the controller. The capacity normalizer rounds to "the backend's
  allocation granularity (e.g., one GiB)"; one GiB is also the unit named by
  \<open>GiBToBytes\<close> and \<open>CapacityGiB\<close>.
\<close>

definition GiB :: int where
  "GiB = 1024 * 1024 * 1024"

text \<open>
  Modelled from the spec: \<open>util.RoundUpBytes\<close>, called at line 62 and defined outside the
  controller. It "rounds the required-bytes value up to the nearest multiple of the
  backend's allocation granularity". Its result is an \<open>int64\<close> (it is assigned to
  \<open>volSizeBytes\<close>): where the nearest multiple is beyond the largest \<open>int64\<close>, the spec
  gives no value, and the result here is that multiple wrapped around.
\<close>

definition RoundUpBytes :: "int \<Rightarrow> int" where
  "RoundUpBytes volumeSizeBytes = int64 (((volumeSizeBytes + GiB - 1) div GiB) * GiB)"

text \<open>
  Modelled from the spec: \<open>util.GiBToBytes\<close>, called at line 389 and defined outside the
  controller. The response translator gives the capacity "converted from the backend's
  unit to bytes", an \<open>int64\<close>.
\<close>

definition GiBToBytes :: "int \<Rightarrow> int" where
  "GiBToBytes volumeSizeGiB = int64 (volumeSizeGiB * GiB)"

section \<open>The controller\<close>

text \<open>
  Each handler takes the world and gives the Go result pair as a sum (the response, or
  what the \<open>error\<close> result holds) together with the world after its backend calls. The
  logging statements are left out. The elements of a repeated message field are values,
  as a decoded request holds no nil element. A record that the backend returns is a
  value: the write \<open>disk.FsType = fsType\<close> (lines 96 and 146) changes the record the
  response is built from.
\<close>

subsection \<open>Capability table and capability check (lines 32-48, 288-305)\<close>

definition volumeCaps :: "VolumeCapability_AccessMode list" where
  "volumeCaps = [\<lparr>Mode = SINGLE_NODE_WRITER\<rparr>]"

text \<open>The generated getter: a nil access mode has mode \<open>UNKNOWN\<close>.\<close>

definition GetMode :: "VolumeCapability_AccessMode option \<Rightarrow> VolumeCapability_AccessMode_Mode" where
  "GetMode m = (case m of None \<Rightarrow> UNKNOWN | Some a \<Rightarrow> Mode a)"

fun hasSupport_loop :: "VolumeCapability_AccessMode list \<Rightarrow> VolumeCapability \<Rightarrow> bool" where
  "hasSupport_loop [] cap = False"
| "hasSupport_loop (c # cs) cap =
     (if Mode c = GetMode (AccessMode cap) then True else hasSupport_loop cs cap)"

definition hasSupport :: "VolumeCapability \<Rightarrow> bool" where
  "hasSupport cap = hasSupport_loop volumeCaps cap"

fun foundAll_loop :: "VolumeCapability list \<Rightarrow> bool \<Rightarrow> bool" where
  "foundAll_loop [] foundAll = foundAll"
| "foundAll_loop (c # cs) foundAll =
     foundAll_loop cs (if \<not> hasSupport c then False else foundAll)"

definition isValidVolumeCapabilities :: "VolumeCapability list \<Rightarrow> bool" where
  "isValidVolumeCapabilities volCaps = foundAll_loop volCaps True"

subsection \<open>Topology selection (lines 364-383)\<close>

text \<open>One of the two \<open>for\<close> loops: \<open>Some zone\<close> is the \<open>return zone\<close> inside the loop.\<close>

fun scanTopologies :: "string \<Rightarrow> Topology list \<Rightarrow> string option" where
  "scanTopologies key [] = None"
| "scanTopologies key (topology # rest) =
     (case Segments topology key of
        Some zone \<Rightarrow> Some zone
      | None \<Rightarrow> scanTopologies key rest)"

definition pickAvailabilityZone :: "Pkg \<Rightarrow> TopologyRequirement option \<Rightarrow> string" where
  "pickAvailabilityZone K requirement =
     (case requirement of
        None \<Rightarrow> []
      | Some r \<Rightarrow>
          (case scanTopologies (TopologyKey K) (Preferred r) of
             Some zone \<Rightarrow> zone
           | None \<Rightarrow>
               (case scanTopologies (TopologyKey K) (Requisite r) of
                  Some zone \<Rightarrow> zone
                | None \<Rightarrow> [])))"

subsection \<open>Response translation (lines 385-416)\<close>

definition newCreateVolumeResponse :: "Pkg \<Rightarrow> Disk \<Rightarrow> CreateVolumeResponse" where
  "newCreateVolumeResponse K disk =
     \<lparr>Volume =
        \<lparr>VolumeId = VolumeID disk,
         CapacityBytes = GiBToBytes (CapacityGiB disk),
         VolumeContext = [FsTypeKey K \<mapsto> FsType disk],
         AccessibleTopology = [\<lparr>Segments = [TopologyKey K \<mapsto> AvailabilityZone disk]\<rparr>]\<rparr>\<rparr>"

definition newCreateSnapshotResponse :: "Pkg \<Rightarrow> Snapshot \<Rightarrow> rpc_error + CreateSnapshotResponse" where
  "newCreateSnapshotResponse K snapshot =
     (case TimestampProto K (CreationTime snapshot) of
        (ts, Some err) \<Rightarrow> Inl (Unwrapped err)
      | (ts, None) \<Rightarrow>
          Inr \<lparr>Snapshot =
                \<lparr>SnapshotId = SnapshotID snapshot,
                 SourceVolumeId = SourceVolumeID snapshot,
                 SizeBytes = Size snapshot,
                 csi_CreationTime = ts,
                 csi_ReadyToUse = ReadyToUse snapshot\<rparr>\<rparr>)"

subsection \<open>CreateVolume (lines 50-148)\<close>

text \<open>
  Lines 57-67: the size to request, or the rejection of a size above the limit.
  \<open>volSizeBytes\<close> and the limit are \<open>int64\<close>: the rounded size is always in that range,
  so the largest \<open>int64\<close> as a limit is never exceeded.
\<close>

definition CreateVolume_size :: "Pkg \<Rightarrow> CapacityRange option \<Rightarrow> rpc_error + int" where
  "CreateVolume_size K capRange =
     (case capRange of
        None \<Rightarrow> Inr (DefaultVolumeSize K)
      | Some r \<Rightarrow>
          (let volSizeBytes = RoundUpBytes (RequiredBytes r);
               maxVolSize = LimitBytes r
           in if maxVolSize > 0 \<and> maxVolSize < volSizeBytes
              then Inl (Status InvalidArgument
                     (Text ''After round-up, volume size exceeds the limit specified''))
              else Inr volSizeBytes))"

text \<open>Lines 103-109: the IOPS figure, parsed only for the provisioned-IOPS volume type.\<close>

definition CreateVolume_iops :: "Pkg \<Rightarrow> (string \<rightharpoonup> string) \<Rightarrow> string \<Rightarrow> rpc_error + int" where
  "CreateVolume_iops K volumeParams volumeType =
     (if volumeType = VolumeTypeIO1 K
      then (case Atoi K (index volumeParams (IopsPerGBKey K)) of
              (n, Some err) \<Rightarrow>
                Inl (Status InvalidArgument
                  (Formatted ''Could not parse invalid iopsPerGB: %v'' [ArgError err]))
            | (n, None) \<Rightarrow> Inr n)
      else Inr 0)"

text \<open>Lines 130-140: the snapshot id of the content source, written into the options.\<close>

definition CreateVolume_source :: "VolumeContentSource option \<Rightarrow> DiskOptions \<Rightarrow> rpc_error + DiskOptions" where
  "CreateVolume_source volumeSource opts =
     (case volumeSource of
        None \<Rightarrow> Inr opts
      | Some src \<Rightarrow>
          (case src of
             VolumeContentSource_Snapshot sourceSnapshot \<Rightarrow>
               (case sourceSnapshot of
                  None \<Rightarrow>
                    Inl (Status InvalidArgument
                      (Text ''Error retrieving snapshot from the volumeContentSource''))
                | Some snapshotId \<Rightarrow> Inr (opts\<lparr>do_SnapshotID := snapshotId\<rparr>))
           | _ \<Rightarrow>
               Inl (Status InvalidArgument (Text ''Unsupported volumeContentSource type''))))"

text \<open>Lines 100-147: the creation of a new volume, reached when the lookup gave no disk.\<close>

definition CreateVolume_new ::
  "Pkg \<Rightarrow> 's Cloud \<Rightarrow> CreateVolumeRequest \<Rightarrow> string \<Rightarrow> int \<Rightarrow> string \<Rightarrow> 's World
     \<Rightarrow> (rpc_error + CreateVolumeResponse) \<times> 's World" where
  "CreateVolume_new K d req volName volSizeBytes fsType w =
     (let volumeParams = cv_Parameters req;
          zone = pickAvailabilityZone K (cv_AccessibilityRequirements req);
          volumeType = index volumeParams (VolumeTypeKey K)
      in case CreateVolume_iops K volumeParams volumeType of
           Inl e \<Rightarrow> (Inl e, w)
         | Inr iopsPerGB \<Rightarrow>
             (let isEncrypted = (index volumeParams (EncryptedKey K) = ''true'');
                  kmsKeyId = (if isEncrypted then index volumeParams (KmsKeyIdKey K) else []);
                  opts = \<lparr>do_CapacityBytes = volSizeBytes,
                          do_Tags = [VolumeNameTagKey K \<mapsto> volName],
                          do_VolumeType = volumeType,
                          do_IOPSPerGB = iopsPerGB,
                          do_AvailabilityZone = zone,
                          do_Encrypted = isEncrypted,
                          do_KmsKeyID = kmsKeyId,
                          do_SnapshotID = []\<rparr>
              in case CreateVolume_source (cv_VolumeContentSource req) opts of
                   Inl e \<Rightarrow> (Inl e, w)
                 | Inr opts' \<Rightarrow>
                     (case invoke (CreateDisk_call volName opts') (cloud_CreateDisk d volName opts') w of
                        ((disk, err), w') \<Rightarrow>
                          (case err of
                             Some e \<Rightarrow>
                               (Inl (Status Internal
                                  (Formatted ''Could not create volume %q: %v''
                                     [ArgString volName, ArgError e])), w')
                           | None \<Rightarrow>
                               (case disk of
                                  None \<Rightarrow> (Inl NilPointerPanic, w')
                                | Some dk \<Rightarrow>
                                    (Inr (newCreateVolumeResponse K (dk\<lparr>FsType := fsType\<rparr>)), w'))))))"

text \<open>Lines 79-89: the switch on the lookup's error; \<open>None\<close> lets the call go on.\<close>

definition CreateVolume_lookup_error :: "error option \<Rightarrow> rpc_error option" where
  "CreateVolume_lookup_error err =
     (case err of
        None \<Rightarrow> None
      | Some e \<Rightarrow>
          (if e = ErrNotFound then None
           else if e = ErrMultiDisks then Some (Status Internal (ErrorText e))
           else if e = ErrDiskExistsDiffSize then Some (Status AlreadyExists (ErrorText e))
           else Some (Status Internal (ErrorText e))))"

definition CreateVolume ::
  "Pkg \<Rightarrow> 's Cloud \<Rightarrow> CreateVolumeRequest \<Rightarrow> 's World
     \<Rightarrow> (rpc_error + CreateVolumeResponse) \<times> 's World" where
  "CreateVolume K d req w =
     (let volName = cv_Name req in
      if length volName = 0
      then (Inl (Status InvalidArgument (Text ''Volume name not provided'')), w)
      else
        (case CreateVolume_size K (cv_CapacityRange req) of
           Inl e \<Rightarrow> (Inl e, w)
         | Inr volSizeBytes \<Rightarrow>
             (let volCaps = cv_VolumeCapabilities req in
              if length volCaps = 0
              then (Inl (Status InvalidArgument (Text ''Volume capabilities not provided'')), w)
              else if \<not> isValidVolumeCapabilities volCaps
              then (Inl (Status InvalidArgument (Text ''Volume capabilities not supported'')), w)
              else
                (case invoke (GetDiskByName_call volName volSizeBytes)
                        (cloud_GetDiskByName d volName volSizeBytes) w of
                   ((disk, err), w1) \<Rightarrow>
                     (case CreateVolume_lookup_error err of
                        Some e \<Rightarrow> (Inl e, w1)
                      | None \<Rightarrow>
                          (let volumeParams = cv_Parameters req;
                               fsType = index volumeParams (FsTypeKey K)
                           in case disk of
                                Some dk \<Rightarrow>
                                  (Inr (newCreateVolumeResponse K (dk\<lparr>FsType := fsType\<rparr>)), w1)
                              | None \<Rightarrow>
                                  CreateVolume_new K d req volName volSizeBytes fsType w1))))))"

subsection \<open>DeleteVolume (lines 150-166)\<close>

text \<open>The empty response messages carry no field.\<close>

type_synonym DeleteVolumeResponse = unit
type_synonym DeleteSnapshotResponse = unit

definition DeleteVolume ::
  "'s Cloud \<Rightarrow> DeleteVolumeRequest \<Rightarrow> 's World \<Rightarrow> (rpc_error + DeleteVolumeResponse) \<times> 's World" where
  "DeleteVolume d req w =
     (let volumeID = dv_VolumeId req in
      if length volumeID = 0
      then (Inl (Status InvalidArgument (Text ''Volume ID not provided'')), w)
      else
        (case invoke (DeleteDisk_call volumeID) (cloud_DeleteDisk d volumeID) w of
           ((ok, err), w1) \<Rightarrow>
             (case err of
                Some e \<Rightarrow>
                  (if e = ErrNotFound then (Inr (), w1)
                   else (Inl (Status Internal
                           (Formatted ''Could not delete volume ID %q: %v''
                              [ArgString volumeID, ArgError e])), w1))
              | None \<Rightarrow> (Inr (), w1))))"

subsection \<open>ControllerPublishVolume (lines 168-212)\<close>

definition ControllerPublishVolume ::
  "Pkg \<Rightarrow> 's Cloud \<Rightarrow> ControllerPublishVolumeRequest \<Rightarrow> 's World
     \<Rightarrow> (rpc_error + ControllerPublishVolumeResponse) \<times> 's World" where
  "ControllerPublishVolume K d req w =
     (let volumeID = cp_VolumeId req; nodeID = cp_NodeId req in
      if length volumeID = 0
      then (Inl (Status InvalidArgument (Text ''Volume ID not provided'')), w)
      else if length nodeID = 0
      then (Inl (Status InvalidArgument (Text ''Node ID not provided'')), w)
      else
        (case cp_VolumeCapability req of
           None \<Rightarrow> (Inl (Status InvalidArgument (Text ''Volume capability not provided'')), w)
         | Some volCap \<Rightarrow>
             (let caps = [volCap] in
              if \<not> isValidVolumeCapabilities caps
              then (Inl (Status InvalidArgument (Text ''Volume capability not supported'')), w)
              else
                (case invoke (IsExistInstance_call nodeID) (cloud_IsExistInstance d nodeID) w of
                   (exist, w1) \<Rightarrow>
                     if \<not> exist
                     then (Inl (Status NotFound
                                  (Formatted ''Instance %q not found'' [ArgString nodeID])), w1)
                     else
                       (case invoke (GetDiskByID_call volumeID) (cloud_GetDiskByID d volumeID) w1 of
                          ((disk, err), w2) \<Rightarrow>
                            (case err of
                               Some e \<Rightarrow>
                                 (if e = ErrNotFound
                                  then (Inl (Status NotFound (Text ''Volume not found'')), w2)
                                  else (Inl (Status Internal
                                          (Formatted ''Could not get volume with ID %q: %v''
                                             [ArgString volumeID, ArgError e])), w2))
                             | None \<Rightarrow>
                                 (case invoke (AttachDisk_call volumeID nodeID)
                                         (cloud_AttachDisk d volumeID nodeID) w2 of
                                    ((devicePath, err'), w3) \<Rightarrow>
                                      (case err' of
                                         Some e \<Rightarrow>
                                           (if e = ErrAlreadyExists
                                            then (Inl (Status AlreadyExists (ErrorText e)), w3)
                                            else (Inl (Status Internal
                                                    (Formatted ''Could not attach volume %q to node %q: %v''
                                                       [ArgString volumeID, ArgString nodeID, ArgError e])), w3))
                                       | None \<Rightarrow>
                                           (let pvInfo = [DevicePathKey K \<mapsto> devicePath]
                                            in (Inr \<lparr>PublishContext = pvInfo\<rparr>, w3))))))))))"

subsection \<open>ValidateVolumeCapabilities (lines 260-286)\<close>

definition ValidateVolumeCapabilities ::
  "'s Cloud \<Rightarrow> ValidateVolumeCapabilitiesRequest \<Rightarrow> 's World
     \<Rightarrow> (rpc_error + ValidateVolumeCapabilitiesResponse) \<times> 's World" where
  "ValidateVolumeCapabilities d req w =
     (let volumeID = vv_VolumeId req in
      if length volumeID = 0
      then (Inl (Status InvalidArgument (Text ''Volume ID not provided'')), w)
      else
        (let volCaps = vv_VolumeCapabilities req in
         if length volCaps = 0
         then (Inl (Status InvalidArgument (Text ''Volume capabilities not provided'')), w)
         else
           (case invoke (GetDiskByID_call volumeID) (cloud_GetDiskByID d volumeID) w of
              ((disk, err), w1) \<Rightarrow>
                (case err of
                   Some e \<Rightarrow>
                     (if e = ErrNotFound
                      then (Inl (Status NotFound (Text ''Volume not found'')), w1)
                      else (Inl (Status Internal
                              (Formatted ''Could not get volume with ID %q: %v''
                                 [ArgString volumeID, ArgError e])), w1))
                 | None \<Rightarrow>
                     (let confirmed =
                            (if isValidVolumeCapabilities volCaps
                             then Some \<lparr>VolumeCapabilities = volCaps\<rparr>
                             else None)
                      in (Inr \<lparr>Confirmed = confirmed\<rparr>, w1))))))"

subsection \<open>CreateSnapshot (lines 307-340)\<close>

text \<open>Line 319: a lookup error other than not-found ends the call.\<close>

definition CreateSnapshot_lookup_error :: "error option \<Rightarrow> error option" where
  "CreateSnapshot_lookup_error err =
     (case err of
        None \<Rightarrow> None
      | Some e \<Rightarrow> (if e \<noteq> ErrNotFound then Some e else None))"

definition CreateSnapshot ::
  "Pkg \<Rightarrow> 's Cloud \<Rightarrow> CreateSnapshotRequest \<Rightarrow> 's World
     \<Rightarrow> (rpc_error + CreateSnapshotResponse) \<times> 's World" where
  "CreateSnapshot K d req w =
     (let snapshotName = cs_Name req in
      if length snapshotName = 0
      then (Inl (Status InvalidArgument (Text ''Snapshot name not provided'')), w)
      else
        (let volumeID = cs_SourceVolumeId req in
         if length volumeID = 0
         then (Inl (Status InvalidArgument (Text ''Snapshot volume source ID not provided'')), w)
         else
           (case invoke (GetSnapshotByName_call snapshotName)
                   (cloud_GetSnapshotByName d snapshotName) w of
              ((snapshot, err), w1) \<Rightarrow>
                (case CreateSnapshot_lookup_error err of
                   Some e \<Rightarrow> (Inl (Unwrapped e), w1)
                 | None \<Rightarrow>
                     (case snapshot of
                        Some snap \<Rightarrow>
                          (if SourceVolumeID snap \<noteq> volumeID
                           then (Inl (Status AlreadyExists
                                   (Formatted ''Snapshot %s already exists for different volume (%s)''
                                      [ArgString snapshotName, ArgString (SourceVolumeID snap)])), w1)
                           else (newCreateSnapshotResponse K snap, w1))
                      | None \<Rightarrow>
                          (let opts = \<lparr>so_Tags = [SnapshotNameTagKey K \<mapsto> snapshotName]\<rparr>
                           in case invoke (CreateSnapshot_call volumeID opts)
                                     (cloud_CreateSnapshot d volumeID opts) w1 of
                                ((snapshot', err'), w2) \<Rightarrow>
                                  (case err' of
                                     Some e \<Rightarrow>
                                       (Inl (Status Internal
                                          (Formatted ''Could not create snapshot %q: %v''
                                             [ArgString snapshotName, ArgError e])), w2)
                                   | None \<Rightarrow>
                                       (case snapshot' of
                                          None \<Rightarrow> (Inl NilPointerPanic, w2)
                                        | Some snap \<Rightarrow> (newCreateSnapshotResponse K snap, w2)))))))))"

subsection \<open>DeleteSnapshot (lines 342-358)\<close>

definition DeleteSnapshot ::
  "'s Cloud \<Rightarrow> DeleteSnapshotRequest \<Rightarrow> 's World \<Rightarrow> (rpc_error + DeleteSnapshotResponse) \<times> 's World" where
  "DeleteSnapshot d req w =
     (let snapshotID = ds_SnapshotId req in
      if length snapshotID = 0
      then (Inl (Status InvalidArgument (Text ''Snapshot ID not provided'')), w)
      else
        (case invoke (DeleteSnapshot_call snapshotID) (cloud_DeleteSnapshot d snapshotID) w of
           ((ok, err), w1) \<Rightarrow>
             (case err of
                Some e \<Rightarrow>
                  (if e = ErrNotFound then (Inr (), w1)
                   else (Inl (Status Internal
                           (Formatted ''Could not delete snapshot ID %q: %v''
                              [ArgString snapshotID, ArgError e])), w1))
              | None \<Rightarrow> (Inr (), w1))))"

section \<open>The selection rule of the specification\<close>

text \<open>
  The rule as the specification words it, to be compared with \<open>pickAvailabilityZone\<close>:
  the zone values found under the topology-zone key, in the order of the sequence; the
  first one of the preferred sequence, else the first one of the requisite sequence, else
  the empty string.
\<close>

definition zones_under :: "string \<Rightarrow> Topology list \<Rightarrow> string list" where
  "zones_under key ts = List.map_filter (\<lambda>t. Segments t key) ts"

definition spec_select_zone :: "string \<Rightarrow> TopologyRequirement option \<Rightarrow> string" where
  "spec_select_zone key requirement =
     (case requirement of
        None \<Rightarrow> []
      | Some r \<Rightarrow>
          (case zones_under key (Preferred r) of
             zone # _ \<Rightarrow> zone
           | [] \<Rightarrow>
               (case zones_under key (Requisite r) of
                  zone # _ \<Rightarrow> zone
                | [] \<Rightarrow> [])))"

text \<open>The supported access modes, as a set of modes.\<close>

definition supported_modes :: "VolumeCapability_AccessMode_Mode set" where
  "supported_modes = Mode ` set volumeCaps"

section \<open>A sample environment\<close>

text \<open>
  Sample values for the package-level names, and a small in-memory backend that keeps
  disks and snapshots by name. They instantiate the theorems below at concrete inputs.
\<close>

definition sample_Atoi :: "string \<Rightarrow> int \<times> error option" where
  "sample_Atoi s =
     (if s \<noteq> [] \<and> list_all (\<lambda>c. 48 \<le> (of_char c :: nat) \<and> (of_char c :: nat) \<le> 57) s
      then (foldl (\<lambda>a c. 10 * a + (int (of_char c) - 48)) 0 s, None)
      else (0, Some (ErrOther ''invalid syntax'')))"

definition sample_TimestampProto :: "Time \<Rightarrow> Timestamp option \<times> error option" where
  "sample_TimestampProto t =
     (if unix t < - 62135596800 \<or> 253402300800 \<le> unix t
         \<or> nanosecond t < 0 \<or> 1000000000 \<le> nanosecond t
      then (None, Some (ErrOther ''timestamp out of range''))
      else (Some \<lparr>Seconds = unix t, Nanos = nanosecond t\<rparr>, None))"

definition pkg0 :: Pkg where
  "pkg0 =
     \<lparr>FsTypeKey = ''fstype'',
      VolumeTypeKey = ''type'',
      IopsPerGBKey = ''iopsPerGB'',
      EncryptedKey = ''encrypted'',
      KmsKeyIdKey = ''kmsKeyId'',
      TopologyKey = ''zone'',
      DevicePathKey = ''devicePath'',
      VolumeTypeIO1 = ''io1'',
      VolumeNameTagKey = ''volume-name'',
      SnapshotNameTagKey = ''snapshot-name'',
      DefaultVolumeSize = 100 * GiB,
      Atoi = sample_Atoi,
      TimestampProto = sample_TimestampProto\<rparr>"

record Store =
  disks :: "(string \<times> Disk) list"
  snapshots :: "(string \<times> Snapshot) list"
  instances :: "string list"
  attachments :: "(string \<times> string) list"

definition mem_GetDiskByName :: "string \<Rightarrow> int \<Rightarrow> Store \<Rightarrow> (Disk option \<times> error option) \<times> Store" where
  "mem_GetDiskByName name capacityBytes s =
     (case filter (\<lambda>e. fst e = name) (disks s) of
        [] \<Rightarrow> ((None, Some ErrNotFound), s)
      | [e] \<Rightarrow>
          (if GiBToBytes (CapacityGiB (snd e)) \<noteq> capacityBytes
           then ((None, Some ErrDiskExistsDiffSize), s)
           else ((Some (snd e), None), s))
      | _ \<Rightarrow> ((None, Some ErrMultiDisks), s))"

definition mem_CreateDisk :: "string \<Rightarrow> DiskOptions \<Rightarrow> Store \<Rightarrow> (Disk option \<times> error option) \<times> Store" where
  "mem_CreateDisk name opts s =
     (let dk = \<lparr>VolumeID = ''vol-'' @ name,
                CapacityGiB = do_CapacityBytes opts div GiB,
                AvailabilityZone = do_AvailabilityZone opts,
                FsType = []\<rparr>
      in ((Some dk, None), s\<lparr>disks := disks s @ [(name, dk)]\<rparr>))"

definition mem_DeleteDisk :: "string \<Rightarrow> Store \<Rightarrow> (bool \<times> error option) \<times> Store" where
  "mem_DeleteDisk volumeID s =
     (if list_ex (\<lambda>e. VolumeID (snd e) = volumeID) (disks s)
      then ((True, None), s\<lparr>disks := filter (\<lambda>e. VolumeID (snd e) \<noteq> volumeID) (disks s)\<rparr>)
      else ((False, Some ErrNotFound), s))"

definition mem_AttachDisk :: "string \<Rightarrow> string \<Rightarrow> Store \<Rightarrow> (string \<times> error option) \<times> Store" where
  "mem_AttachDisk volumeID nodeID s =
     (if list_ex (\<lambda>e. fst e = volumeID) (attachments s)
      then (([], Some ErrAlreadyExists), s)
      else ((''/dev/xvdba'', None), s\<lparr>attachments := attachments s @ [(volumeID, nodeID)]\<rparr>))"

definition mem_IsExistInstance :: "string \<Rightarrow> Store \<Rightarrow> bool \<times> Store" where
  "mem_IsExistInstance nodeID s = (list_ex (\<lambda>n. n = nodeID) (instances s), s)"

definition mem_GetDiskByID :: "string \<Rightarrow> Store \<Rightarrow> (Disk option \<times> error option) \<times> Store" where
  "mem_GetDiskByID volumeID s =
     (case find (\<lambda>e. VolumeID (snd e) = volumeID) (disks s) of
        None \<Rightarrow> ((None, Some ErrNotFound), s)
      | Some e \<Rightarrow> ((Some (snd e), None), s))"

definition mem_GetSnapshotByName :: "string \<Rightarrow> Store \<Rightarrow> (Snapshot option \<times> error option) \<times> Store" where
  "mem_GetSnapshotByName name s =
     (case find (\<lambda>e. fst e = name) (snapshots s) of
        None \<Rightarrow> ((None, Some ErrNotFound), s)
      | Some e \<Rightarrow> ((Some (snd e), None), s))"

definition mem_CreateSnapshot ::
  "Pkg \<Rightarrow> string \<Rightarrow> SnapshotOptions \<Rightarrow> Store \<Rightarrow> (Snapshot option \<times> error option) \<times> Store" where
  "mem_CreateSnapshot K volumeID opts s =
     (let name = index (so_Tags opts) (SnapshotNameTagKey K);
          sn = \<lparr>SnapshotID = ''snap-'' @ name,
                SourceVolumeID = volumeID,
                Size = 0,
                CreationTime = \<lparr>unix = 1540000000, nanosecond = 0\<rparr>,
                ReadyToUse = False\<rparr>
      in ((Some sn, None), s\<lparr>snapshots := snapshots s @ [(name, sn)]\<rparr>))"

definition mem_DeleteSnapshot :: "string \<Rightarrow> Store \<Rightarrow> (bool \<times> error option) \<times> Store" where
  "mem_DeleteSnapshot snapshotID s =
     (if list_ex (\<lambda>e. SnapshotID (snd e) = snapshotID) (snapshots s)
      then ((True, None), s\<lparr>snapshots := filter (\<lambda>e. SnapshotID (snd e) \<noteq> snapshotID) (snapshots s)\<rparr>)
      else ((False, Some ErrNotFound), s))"

definition memCloud :: "Pkg \<Rightarrow> Store Cloud" where
  "memCloud K =
     \<lparr>cloud_GetDiskByName = mem_GetDiskByName,
      cloud_CreateDisk = mem_CreateDisk,
      cloud_DeleteDisk = mem_DeleteDisk,
      cloud_AttachDisk = mem_AttachDisk,
      cloud_IsExistInstance = mem_IsExistInstance,
      cloud_GetDiskByID = mem_GetDiskByID,
      cloud_GetSnapshotByName = mem_GetSnapshotByName,
      cloud_CreateSnapshot = mem_CreateSnapshot K,
      cloud_DeleteSnapshot = mem_DeleteSnapshot\<rparr>"

definition world0 :: "Store World" where
  "world0 = \<lparr>backend = \<lparr>disks = [], snapshots = [], instances = [''i-1''], attachments = []\<rparr>,
             calls = []\<rparr>"

definition writer :: VolumeCapability where
  "writer = \<lparr>AccessMode = Some \<lparr>Mode = SINGLE_NODE_WRITER\<rparr>\<rparr>"

definition multi_writer :: VolumeCapability where
  "multi_writer = \<lparr>AccessMode = Some \<lparr>Mode = MULTI_NODE_MULTI_WRITER\<rparr>\<rparr>"

definition create_req :: "string \<Rightarrow> CapacityRange option \<Rightarrow> CreateVolumeRequest" where
  "create_req name capRange =
     \<lparr>cv_Name = name,
      cv_CapacityRange = capRange,
      cv_VolumeCapabilities = [writer],
      cv_Parameters = [''fstype'' \<mapsto> ''ext4''],
      cv_VolumeContentSource = None,
      cv_AccessibilityRequirements =
        Some \<lparr>Requisite = [\<lparr>Segments = [''zone'' \<mapsto> ''b'']\<rparr>],
              Preferred = [\<lparr>Segments = [''zone'' \<mapsto> ''a'']\<rparr>]\<rparr>\<rparr>"

definition req0 :: CreateVolumeRequest where
  "req0 = create_req ''pvc-1'' None"

definition vol0 :: Disk where
  "vol0 = \<lparr>VolumeID = ''vol-pvc-1'', CapacityGiB = 100, AvailabilityZone = ''a'', FsType = []\<rparr>"

text \<open>The world after the first \<open>CreateVolume\<close> of \<open>req0\<close> on the empty backend.\<close>

definition world1 :: "Store World" where
  "world1 =
     \<lparr>backend = \<lparr>disks = [(''pvc-1'', vol0)], snapshots = [], instances = [''i-1''], attachments = []\<rparr>,
      calls = [GetDiskByName_call ''pvc-1'' (100 * GiB),
               CreateDisk_call ''pvc-1''
                 \<lparr>do_CapacityBytes = 100 * GiB, do_Tags = [''volume-name'' \<mapsto> ''pvc-1''],
                  do_VolumeType = [], do_IOPSPerGB = 0, do_AvailabilityZone = ''a'',
                  do_Encrypted = False, do_KmsKeyID = [], do_SnapshotID = []\<rparr>]\<rparr>"

definition req_small :: CreateVolumeRequest where
  "req_small = create_req ''pvc-1'' (Some \<lparr>RequiredBytes = 1, LimitBytes = 0\<rparr>)"

definition world2 :: "Store World" where
  "world2 = \<lparr>backend = \<lparr>disks = [(''pvc-1'', vol0), (''pvc-1'', vol0\<lparr>VolumeID := ''vol-other''\<rparr>)],
                          snapshots = [], instances = [''i-1''], attachments = []\<rparr>,
             calls = []\<rparr>"

definition timeoutCloud :: "Store Cloud" where
  "timeoutCloud =
     (memCloud pkg0)
       \<lparr>cloud_GetDiskByName := \<lambda>name n s. ((None, Some (ErrOther ''timeout'')), s),
        cloud_DeleteDisk := \<lambda>volumeID s. ((False, Some (ErrOther ''timeout'')), s),
        cloud_DeleteSnapshot := \<lambda>snapshotID s. ((False, Some (ErrOther ''timeout'')), s)\<rparr>"

definition req_at_limit :: "int \<Rightarrow> CreateVolumeRequest" where
  "req_at_limit b = create_req ''pvc-1'' (Some \<lparr>RequiredBytes = b, LimitBytes = b\<rparr>)"

definition snap_req :: "string \<Rightarrow> string \<Rightarrow> CreateSnapshotRequest" where
  "snap_req name volumeID = \<lparr>cs_Name = name, cs_SourceVolumeId = volumeID\<rparr>"

definition snap0 :: Snapshot where
  "snap0 = \<lparr>SnapshotID = ''snap-id-1'', SourceVolumeID = ''vol-1'', Size = GiB,
            CreationTime = \<lparr>unix = 1540000000, nanosecond = 0\<rparr>, ReadyToUse = False\<rparr>"

definition world_snap :: "Snapshot \<Rightarrow> Store World" where
  "world_snap sn =
     \<lparr>backend = \<lparr>disks = [], snapshots = [(''snap-1'', sn)], instances = [''i-1''], attachments = []\<rparr>,
      calls = []\<rparr>"

definition snap_late :: Snapshot where
  "snap_late = snap0\<lparr>CreationTime := \<lparr>unix = 253402300800, nanosecond = 0\<rparr>\<rparr>"

definition lateCloud :: "Store Cloud" where
  "lateCloud =
     (memCloud pkg0)\<lparr>cloud_CreateSnapshot := \<lambda>volumeID opts s. ((Some snap_late, None), s)\<rparr>"

definition topo :: "string \<Rightarrow> Topology" where
  "topo zone = \<lparr>Segments = [''zone'' \<mapsto> zone]\<rparr>"

definition publish_req :: "string \<Rightarrow> string \<Rightarrow> VolumeCapability \<Rightarrow> ControllerPublishVolumeRequest" where
  "publish_req volumeID nodeID volCap =
     \<lparr>cp_VolumeId = volumeID, cp_NodeId = nodeID, cp_VolumeCapability = Some volCap\<rparr>"

definition validate_req :: "string \<Rightarrow> VolumeCapability list \<Rightarrow> ValidateVolumeCapabilitiesRequest" where
  "validate_req volumeID volCaps = \<lparr>vv_VolumeId = volumeID, vv_VolumeCapabilities = volCaps\<rparr>"

definition world_attached :: "Store World" where
  "world_attached = world1\<lparr>backend := (backend world1)\<lparr>attachments := [(''vol-pvc-1'', ''i-9'')]\<rparr>\<rparr>"

definition vol_xfs :: Disk where
  "vol_xfs = vol0\<lparr>FsType := ''xfs''\<rparr>"

definition world_xfs :: "Store World" where
  "world_xfs =
     \<lparr>backend = \<lparr>disks = [(''pvc-1'', vol_xfs)], snapshots = [], instances = [''i-1''], attachments = []\<rparr>,
      calls = []\<rparr>"

definition req_volume_source :: CreateVolumeRequest where
  "req_volume_source = req0\<lparr>cv_VolumeContentSource := Some (VolumeContentSource_Volume None)\<rparr>"

definition req_io1 :: CreateVolumeRequest where
  "req_io1 = req0\<lparr>cv_Parameters := [''type'' \<mapsto> ''io1'', ''iopsPerGB'' \<mapsto> ''x'']\<rparr>"

section \<open>Vocabulary of the properties\<close>

text \<open>
  A create-volume request passes the checks of lines 52-76 (name, capacity range,
  capabilities) and is looked up with the size \<open>volSizeBytes\<close>.
\<close>

definition CreateVolume_validated :: "Pkg \<Rightarrow> CreateVolumeRequest \<Rightarrow> int \<Rightarrow> bool" where
  "CreateVolume_validated K req volSizeBytes \<longleftrightarrow>
     cv_Name req \<noteq> []
     \<and> CreateVolume_size K (cv_CapacityRange req) = Inr volSizeBytes
     \<and> cv_VolumeCapabilities req \<noteq> []
     \<and> isValidVolumeCapabilities (cv_VolumeCapabilities req)"

text \<open>The world after one more backend call that left the backend in state \<open>s'\<close>.\<close>

definition after_call :: "'s World \<Rightarrow> 's \<Rightarrow> Call \<Rightarrow> 's World" where
  "after_call w s' c = \<lparr>backend = s', calls = calls w @ [c]\<rparr>"

text \<open>The options CreateSnapshot passes to the backend (lines 331-333).\<close>

definition snapshot_opts :: "Pkg \<Rightarrow> string \<Rightarrow> SnapshotOptions" where
  "snapshot_opts K snapshotName = \<lparr>so_Tags = [SnapshotNameTagKey K \<mapsto> snapshotName]\<rparr>"

text \<open>The outcome of CreateSnapshot's creation step (lines 334-339), from the backend's result.\<close>

definition created_snapshot_result ::
  "Pkg \<Rightarrow> string \<Rightarrow> Snapshot option \<Rightarrow> error option \<Rightarrow> rpc_error + CreateSnapshotResponse" where
  "created_snapshot_result K snapshotName snapshot err =
     (case err of
        Some e \<Rightarrow>
          Inl (Status Internal
            (Formatted ''Could not create snapshot %q: %v'' [ArgString snapshotName, ArgError e]))
      | None \<Rightarrow>
          (case snapshot of
             None \<Rightarrow> Inl NilPointerPanic
           | Some snap \<Rightarrow> newCreateSnapshotResponse K snap))"

text \<open>The options that CreateVolume builds for the backend's creation (lines 120-140).\<close>

definition create_options :: "Pkg \<Rightarrow> CreateVolumeRequest \<Rightarrow> int \<Rightarrow> int \<Rightarrow> string \<Rightarrow> DiskOptions" where
  "create_options K req volSizeBytes iopsPerGB snapshotId =
     \<lparr>do_CapacityBytes = volSizeBytes,
      do_Tags = [VolumeNameTagKey K \<mapsto> cv_Name req],
      do_VolumeType = index (cv_Parameters req) (VolumeTypeKey K),
      do_IOPSPerGB = iopsPerGB,
      do_AvailabilityZone = pickAvailabilityZone K (cv_AccessibilityRequirements req),
      do_Encrypted = (index (cv_Parameters req) (EncryptedKey K) = ''true''),
      do_KmsKeyID = (if index (cv_Parameters req) (EncryptedKey K) = ''true''
                     then index (cv_Parameters req) (KmsKeyIdKey K) else []),
      do_SnapshotID = snapshotId\<rparr>"

text \<open>The outcome of CreateVolume's creation step (lines 142-147), from the backend's result.\<close>

definition created_volume_result ::
  "Pkg \<Rightarrow> CreateVolumeRequest \<Rightarrow> Disk option \<Rightarrow> error option \<Rightarrow> rpc_error + CreateVolumeResponse" where
  "created_volume_result K req disk err =
     (case err of
        Some e \<Rightarrow>
          Inl (Status Internal
            (Formatted ''Could not create volume %q: %v'' [ArgString (cv_Name req), ArgError e]))
      | None \<Rightarrow>
          (case disk of
             None \<Rightarrow> Inl NilPointerPanic
           | Some dk \<Rightarrow>
               Inr (newCreateVolumeResponse K (dk\<lparr>FsType := index (cv_Parameters req) (FsTypeKey K)\<rparr>))))"

section \<open>Machine integers: basic facts\<close>

lemma int64_id: "is_int64 x \<Longrightarrow> int64 x = x"
  by (simp add: is_int64_def int64_def)

lemma int64_range: "is_int64 (int64 x)"
proof -
  have "0 \<le> (x + 2 ^ 63) mod 2 ^ 64" and "(x + 2 ^ 63) mod 2 ^ 64 < (2 ^ 64 :: int)"
    by simp_all
  then show ?thesis
    by (simp add: is_int64_def int64_def)
qed

lemma GiB_pos: "0 < GiB"
  by (simp add: GiB_def)

lemma GiBToBytes_100: "GiBToBytes 100 = 100 * GiB"
  by (simp add: GiBToBytes_def GiB_def int64_id is_int64_def)

lemma RoundUpBytes_one: "RoundUpBytes 1 = GiB"
  by (simp add: RoundUpBytes_def GiB_def int64_id is_int64_def)

section \<open>Properties of CreateVolume\<close>

lemma CreateVolume_after_lookup:
  assumes "CreateVolume_validated K req n"
    and "cloud_GetDiskByName d (cv_Name req) n (backend w) = ((disk, err), s1)"
  shows "CreateVolume K d req w =
    (case CreateVolume_lookup_error err of
       Some e \<Rightarrow> (Inl e, after_call w s1 (GetDiskByName_call (cv_Name req) n))
     | None \<Rightarrow>
        (case disk of
           Some dk \<Rightarrow>
             (Inr (newCreateVolumeResponse K (dk\<lparr>FsType := index (cv_Parameters req) (FsTypeKey K)\<rparr>)),
              after_call w s1 (GetDiskByName_call (cv_Name req) n))
         | None \<Rightarrow>
             CreateVolume_new K d req (cv_Name req) n (index (cv_Parameters req) (FsTypeKey K))
               (after_call w s1 (GetDiskByName_call (cv_Name req) n))))"
  using assms
  by (simp add: CreateVolume_def CreateVolume_validated_def invoke_def after_call_def Let_def
      split: option.splits)

lemma CreateVolume_replay:
  assumes "CreateVolume_validated K req n"
    and "cloud_GetDiskByName d (cv_Name req) n (backend w) = ((Some disk, None), s1)"
  shows "CreateVolume K d req w =
      (Inr (newCreateVolumeResponse K (disk\<lparr>FsType := index (cv_Parameters req) (FsTypeKey K)\<rparr>)),
       after_call w s1 (GetDiskByName_call (cv_Name req) n))"
  using CreateVolume_after_lookup [OF assms]
  by (simp add: CreateVolume_lookup_error_def)

lemma valid0: "CreateVolume_validated pkg0 req0 (100 * GiB)"
  by (simp add: CreateVolume_validated_def req0_def create_req_def CreateVolume_size_def pkg0_def
      isValidVolumeCapabilities_def hasSupport_def volumeCaps_def writer_def GetMode_def)

lemma first_call:
  "CreateVolume pkg0 (memCloud pkg0) req0 world0 =
     (Inr (newCreateVolumeResponse pkg0 (vol0\<lparr>FsType := ''ext4''\<rparr>)), world1)"
  by (simp add: CreateVolume_def req0_def create_req_def CreateVolume_size_def pkg0_def
      isValidVolumeCapabilities_def hasSupport_def volumeCaps_def writer_def GetMode_def
      invoke_def memCloud_def mem_GetDiskByName_def world0_def world1_def vol0_def
      CreateVolume_lookup_error_def index_def CreateVolume_new_def pickAvailabilityZone_def
      CreateVolume_iops_def CreateVolume_source_def mem_CreateDisk_def GiB_def Let_def)

lemma lookup1:
  "cloud_GetDiskByName (memCloud pkg0) (cv_Name req0) (100 * GiB) (backend world1) =
     ((Some vol0, None), backend world1)"
  by (simp add: memCloud_def mem_GetDiskByName_def world1_def req0_def create_req_def vol0_def
      GiBToBytes_100)

text \<open>
  C1. Replay of CreateVolume is idempotent. For a request that passes validation with the
  normalized size \<open>n\<close>: if the by-name lookup returns an existing volume (the backend
  compares the size and reports no error), CreateVolume succeeds with that volume's
  identifier and its only backend call is the lookup; hence, when a first call succeeded
  and the lookup of the second call returns the volume of the first, the second call
  returns the same identifier and adds no creation call to the trace.
\<close>

theorem CreateVolume_idempotent_replay:
  assumes valid: "CreateVolume_validated K req n"
  shows "(\<forall>disk s1.
            cloud_GetDiskByName d (cv_Name req) n (backend w) = ((Some disk, None), s1) \<longrightarrow>
            (\<exists>resp. CreateVolume K d req w =
                       (resp, after_call w s1 (GetDiskByName_call (cv_Name req) n))
                   \<and> (\<exists>v. resp = Inr v \<and> VolumeId (Volume v) = VolumeID disk)))
       \<and> (\<forall>r1 w1 disk s2.
            CreateVolume K d req w = (Inr r1, w1)
            \<and> cloud_GetDiskByName d (cv_Name req) n (backend w1) = ((Some disk, None), s2)
            \<and> VolumeID disk = VolumeId (Volume r1) \<longrightarrow>
            (\<exists>r2 w2. CreateVolume K d req w1 = (Inr r2, w2)
                   \<and> VolumeId (Volume r2) = VolumeId (Volume r1)
                   \<and> calls w2 = calls w1 @ [GetDiskByName_call (cv_Name req) n]
                   \<and> filter is_CreateDisk (calls w2) = filter is_CreateDisk (calls w1)))"
proof (intro conjI allI impI)
  fix disk s1
  assume "cloud_GetDiskByName d (cv_Name req) n (backend w) = ((Some disk, None), s1)"
  from CreateVolume_replay [OF valid this]
  show "\<exists>resp. CreateVolume K d req w = (resp, after_call w s1 (GetDiskByName_call (cv_Name req) n))
           \<and> (\<exists>v. resp = Inr v \<and> VolumeId (Volume v) = VolumeID disk)"
    by (simp add: newCreateVolumeResponse_def)
next
  fix r1 w1 disk s2
  assume a: "CreateVolume K d req w = (Inr r1, w1)
            \<and> cloud_GetDiskByName d (cv_Name req) n (backend w1) = ((Some disk, None), s2)
            \<and> VolumeID disk = VolumeId (Volume r1)"
  then have look: "cloud_GetDiskByName d (cv_Name req) n (backend w1) = ((Some disk, None), s2)"
    and same: "VolumeID disk = VolumeId (Volume r1)"
    by simp_all
  from CreateVolume_replay [OF valid look] same
  show "\<exists>r2 w2. CreateVolume K d req w1 = (Inr r2, w2)
                   \<and> VolumeId (Volume r2) = VolumeId (Volume r1)
                   \<and> calls w2 = calls w1 @ [GetDiskByName_call (cv_Name req) n]
                   \<and> filter is_CreateDisk (calls w2) = filter is_CreateDisk (calls w1)"
    by (simp add: newCreateVolumeResponse_def after_call_def)
qed

theorem CreateVolume_idempotent_replay_witness:
  "CreateVolume_validated pkg0 req0 (100 * GiB)
   \<and> CreateVolume pkg0 (memCloud pkg0) req0 world0 =
       (Inr (newCreateVolumeResponse pkg0 (vol0\<lparr>FsType := ''ext4''\<rparr>)), world1)
   \<and> (\<exists>r2 w2. CreateVolume pkg0 (memCloud pkg0) req0 world1 = (Inr r2, w2)
          \<and> VolumeId (Volume r2) = ''vol-pvc-1''
          \<and> calls w2 = calls world1 @ [GetDiskByName_call ''pvc-1'' (100 * GiB)]
          \<and> length (filter is_CreateDisk (calls w2)) = 1)"
proof -
  have same: "VolumeID vol0 = VolumeId (Volume (newCreateVolumeResponse pkg0 (vol0\<lparr>FsType := ''ext4''\<rparr>)))"
    by (simp add: newCreateVolumeResponse_def)
  from CreateVolume_idempotent_replay [OF valid0, of "memCloud pkg0" world0, THEN conjunct2,
      rule_format, OF conjI [OF first_call conjI [OF lookup1 same]]]
  obtain r2 w2 where "CreateVolume pkg0 (memCloud pkg0) req0 world1 = (Inr r2, w2)"
    and "VolumeId (Volume r2) = VolumeId (Volume (newCreateVolumeResponse pkg0 (vol0\<lparr>FsType := ''ext4''\<rparr>)))"
    and "calls w2 = calls world1 @ [GetDiskByName_call (cv_Name req0) (100 * GiB)]"
    and "filter is_CreateDisk (calls w2) = filter is_CreateDisk (calls world1)"
    by blast
  then show ?thesis
    using valid0 first_call
    by (simp add: newCreateVolumeResponse_def vol0_def world1_def req0_def create_req_def)
qed

lemma CreateVolume_iops_Inl:
  "CreateVolume_iops K ps vt = Inl e \<Longrightarrow> \<exists>m. e = Status InvalidArgument m"
  by (auto simp: CreateVolume_iops_def split: if_splits prod.splits option.splits)

lemma CreateVolume_source_Inl:
  "CreateVolume_source src opts = Inl e \<Longrightarrow> \<exists>m. e = Status InvalidArgument m"
  by (auto simp: CreateVolume_source_def split: option.splits VolumeContentSource.splits)

lemma CreateVolume_source_Inr:
  "CreateVolume_source src opts = Inr opts' \<Longrightarrow> do_CapacityBytes opts' = do_CapacityBytes opts"
  by (auto simp: CreateVolume_source_def split: option.splits VolumeContentSource.splits)

lemma CreateVolume_new_outcome:
  "(\<exists>m. CreateVolume_new K d req volName n fsType w = (Inl (Status InvalidArgument m), w))
   \<or> (\<exists>opts disk err s'.
         cloud_CreateDisk d volName opts (backend w) = ((disk, err), s')
         \<and> do_CapacityBytes opts = n
         \<and> CreateVolume_new K d req volName n fsType w =
             (case err of
                Some e \<Rightarrow> Inl (Status Internal
                            (Formatted ''Could not create volume %q: %v'' [ArgString volName, ArgError e]))
              | None \<Rightarrow>
                  (case disk of
                     None \<Rightarrow> Inl NilPointerPanic
                   | Some dk \<Rightarrow> Inr (newCreateVolumeResponse K (dk\<lparr>FsType := fsType\<rparr>))),
              after_call w s' (CreateDisk_call volName opts)))"
proof (cases "CreateVolume_iops K (cv_Parameters req) (index (cv_Parameters req) (VolumeTypeKey K))")
  case (Inl e)
  with CreateVolume_iops_Inl [OF Inl] show ?thesis
    by (auto simp: CreateVolume_new_def)
next
  case (Inr iopsPerGB)
  let ?opts = "\<lparr>do_CapacityBytes = n,
                 do_Tags = [VolumeNameTagKey K \<mapsto> volName],
                 do_VolumeType = index (cv_Parameters req) (VolumeTypeKey K),
                 do_IOPSPerGB = iopsPerGB,
                 do_AvailabilityZone = pickAvailabilityZone K (cv_AccessibilityRequirements req),
                 do_Encrypted = (index (cv_Parameters req) (EncryptedKey K) = ''true''),
                 do_KmsKeyID = (if index (cv_Parameters req) (EncryptedKey K) = ''true''
                                then index (cv_Parameters req) (KmsKeyIdKey K) else []),
                 do_SnapshotID = []\<rparr>"
  show ?thesis
  proof (cases "CreateVolume_source (cv_VolumeContentSource req) ?opts")
    case (Inl e)
    with CreateVolume_source_Inl [OF Inl] Inr show ?thesis
      by (auto simp: CreateVolume_new_def Let_def)
  next
    case src: (Inr opts')
    obtain disk err s' where cr: "cloud_CreateDisk d volName opts' (backend w) = ((disk, err), s')"
      by (metis surj_pair)
    have cap: "do_CapacityBytes opts' = n"
      using CreateVolume_source_Inr [OF src] by simp
    have "CreateVolume_new K d req volName n fsType w =
             (case err of
                Some e \<Rightarrow> Inl (Status Internal
                            (Formatted ''Could not create volume %q: %v'' [ArgString volName, ArgError e]))
              | None \<Rightarrow>
                  (case disk of
                     None \<Rightarrow> Inl NilPointerPanic
                   | Some dk \<Rightarrow> Inr (newCreateVolumeResponse K (dk\<lparr>FsType := fsType\<rparr>))),
              after_call w s' (CreateDisk_call volName opts'))"
      using Inr src cr
      by (simp add: CreateVolume_new_def Let_def invoke_def after_call_def split: option.splits)
    with cr cap show ?thesis by blast
  qed
qed

lemma CreateVolume_new_creates:
  assumes iops: "index (cv_Parameters req) (VolumeTypeKey K) \<noteq> VolumeTypeIO1 K \<and> iopsPerGB = 0
        \<or> index (cv_Parameters req) (VolumeTypeKey K) = VolumeTypeIO1 K
          \<and> Atoi K (index (cv_Parameters req) (IopsPerGBKey K)) = (iopsPerGB, None)"
    and src: "cv_VolumeContentSource req = None \<and> snapshotId = []
        \<or> cv_VolumeContentSource req = Some (VolumeContentSource_Snapshot (Some snapshotId))"
    and create: "cloud_CreateDisk d (cv_Name req) (create_options K req n iopsPerGB snapshotId) (backend w) =
        ((created, cerr), s2)"
  shows "CreateVolume_new K d req (cv_Name req) n (index (cv_Parameters req) (FsTypeKey K)) w =
      (created_volume_result K req created cerr,
       after_call w s2 (CreateDisk_call (cv_Name req) (create_options K req n iopsPerGB snapshotId)))"
proof -
  have i: "CreateVolume_iops K (cv_Parameters req) (index (cv_Parameters req) (VolumeTypeKey K)) =
      Inr iopsPerGB"
    using iops by (auto simp: CreateVolume_iops_def)
  have s: "CreateVolume_source (cv_VolumeContentSource req) (create_options K req n iopsPerGB []) =
      Inr (create_options K req n iopsPerGB snapshotId)"
    using src by (auto simp: CreateVolume_source_def create_options_def)
  show ?thesis
    using i s create
    by (simp add: CreateVolume_new_def Let_def create_options_def [symmetric] invoke_def
        after_call_def created_volume_result_def split: option.splits)
qed

lemma CreateVolume_new_iops_rejected:
  assumes "index (cv_Parameters req) (VolumeTypeKey K) = VolumeTypeIO1 K"
    and "Atoi K (index (cv_Parameters req) (IopsPerGBKey K)) = (m, Some e)"
  shows "CreateVolume_new K d req volName n fsType w =
      (Inl (Status InvalidArgument
         (Formatted ''Could not parse invalid iopsPerGB: %v'' [ArgError e])), w)"
  using assms by (simp add: CreateVolume_new_def CreateVolume_iops_def Let_def)

lemma CreateVolume_new_source_rejected:
  assumes iops: "index (cv_Parameters req) (VolumeTypeKey K) \<noteq> VolumeTypeIO1 K
        \<or> (\<exists>m. Atoi K (index (cv_Parameters req) (IopsPerGBKey K)) = (m, None))"
    and src: "cv_VolumeContentSource req = Some x" "CreateVolume_source (Some x) opts = Inl e"
  shows "CreateVolume_new K d req volName n fsType w = (Inl e, w)"
proof -
  from iops have "\<exists>i. CreateVolume_iops K (cv_Parameters req)
      (index (cv_Parameters req) (VolumeTypeKey K)) = Inr i"
    by (cases "index (cv_Parameters req) (VolumeTypeKey K) = VolumeTypeIO1 K")
      (auto simp: CreateVolume_iops_def)
  then obtain i where "CreateVolume_iops K (cv_Parameters req)
      (index (cv_Parameters req) (VolumeTypeKey K)) = Inr i" ..
  moreover have "CreateVolume_source (Some x) opts' = Inl e" for opts'
    using src(2) by (auto simp: CreateVolume_source_def split: VolumeContentSource.splits option.splits)
  ultimately show ?thesis
    using src(1) by (simp add: CreateVolume_new_def Let_def)
qed

text \<open>
  C2. CreateVolume classifies the outcome of the by-name lookup. For a request that passes
  validation: a not-found outcome (no disk, \<open>ErrNotFound\<close>) passes through to creation:
  unless the provisioned-IOPS figure does not parse or the content source is not a
  snapshot with an id (each an invalid request, with no creation), the backend's creation
  is called with the name and the options built from the request and the normalized size,
  and its result decides the outcome. A size mismatch fails with AlreadyExists; several
  disks fail with Internal; every other lookup error fails with Internal; the failing
  branches make no further backend call. Creation is reached only when the lookup gave no
  disk and either \<open>ErrNotFound\<close> or no error at all (the nil, nil result with which a
  backend may also report absence).
\<close>

theorem CreateVolume_lookup_classification:
  assumes valid: "CreateVolume_validated K req n"
    and lookup: "cloud_GetDiskByName d (cv_Name req) n (backend w) = ((disk, err), s1)"
  shows "(err = Some ErrNotFound \<and> disk = None \<longrightarrow>
            (\<forall>iopsPerGB snapshotId.
               (index (cv_Parameters req) (VolumeTypeKey K) \<noteq> VolumeTypeIO1 K \<and> iopsPerGB = 0
                \<or> index (cv_Parameters req) (VolumeTypeKey K) = VolumeTypeIO1 K
                  \<and> Atoi K (index (cv_Parameters req) (IopsPerGBKey K)) = (iopsPerGB, None))
               \<and> (cv_VolumeContentSource req = None \<and> snapshotId = []
                  \<or> cv_VolumeContentSource req = Some (VolumeContentSource_Snapshot (Some snapshotId)))
               \<longrightarrow>
               (\<exists>created cerr s2.
                  cloud_CreateDisk d (cv_Name req) (create_options K req n iopsPerGB snapshotId) s1 =
                    ((created, cerr), s2)
                  \<and> CreateVolume K d req w =
                      (created_volume_result K req created cerr,
                       after_call (after_call w s1 (GetDiskByName_call (cv_Name req) n)) s2
                         (CreateDisk_call (cv_Name req)
                            (create_options K req n iopsPerGB snapshotId)))))
          \<and> (\<forall>m e.
               index (cv_Parameters req) (VolumeTypeKey K) = VolumeTypeIO1 K
               \<and> Atoi K (index (cv_Parameters req) (IopsPerGBKey K)) = (m, Some e) \<longrightarrow>
               CreateVolume K d req w =
                 (Inl (Status InvalidArgument
                    (Formatted ''Could not parse invalid iopsPerGB: %v'' [ArgError e])),
                  after_call w s1 (GetDiskByName_call (cv_Name req) n)))
          \<and> ((index (cv_Parameters req) (VolumeTypeKey K) \<noteq> VolumeTypeIO1 K
                \<or> (\<exists>m. Atoi K (index (cv_Parameters req) (IopsPerGBKey K)) = (m, None)))
              \<and> cv_VolumeContentSource req = Some (VolumeContentSource_Snapshot None) \<longrightarrow>
               CreateVolume K d req w =
                 (Inl (Status InvalidArgument
                    (Text ''Error retrieving snapshot from the volumeContentSource'')),
                  after_call w s1 (GetDiskByName_call (cv_Name req) n)))
          \<and> ((index (cv_Parameters req) (VolumeTypeKey K) \<noteq> VolumeTypeIO1 K
                \<or> (\<exists>m. Atoi K (index (cv_Parameters req) (IopsPerGBKey K)) = (m, None)))
              \<and> (cv_VolumeContentSource req = Some VolumeContentSource_None
                  \<or> (\<exists>v. cv_VolumeContentSource req = Some (VolumeContentSource_Volume v))) \<longrightarrow>
               CreateVolume K d req w =
                 (Inl (Status InvalidArgument (Text ''Unsupported volumeContentSource type'')),
                  after_call w s1 (GetDiskByName_call (cv_Name req) n))))
       \<and> (err = Some ErrDiskExistsDiffSize \<longrightarrow>
            CreateVolume K d req w =
              (Inl (Status AlreadyExists (ErrorText ErrDiskExistsDiffSize)),
               after_call w s1 (GetDiskByName_call (cv_Name req) n)))
       \<and> (err = Some ErrMultiDisks \<longrightarrow>
            CreateVolume K d req w =
              (Inl (Status Internal (ErrorText ErrMultiDisks)),
               after_call w s1 (GetDiskByName_call (cv_Name req) n)))
       \<and> (\<forall>e. err = Some e \<and> e \<noteq> ErrNotFound \<and> e \<noteq> ErrDiskExistsDiffSize \<longrightarrow>
            CreateVolume K d req w =
              (Inl (Status Internal (ErrorText e)),
               after_call w s1 (GetDiskByName_call (cv_Name req) n)))
       \<and> (filter is_CreateDisk (calls (snd (CreateVolume K d req w))) \<noteq> filter is_CreateDisk (calls w) \<longrightarrow>
            disk = None \<and> (err = None \<or> err = Some ErrNotFound))"
proof -
  let ?w1 = "after_call w s1 (GetDiskByName_call (cv_Name req) n)"
  let ?fs = "index (cv_Parameters req) (FsTypeKey K)"
  let ?iops_ok = "index (cv_Parameters req) (VolumeTypeKey K) \<noteq> VolumeTypeIO1 K
      \<or> (\<exists>m. Atoi K (index (cv_Parameters req) (IopsPerGBKey K)) = (m, None))"
  note eq = CreateVolume_after_lookup [OF valid lookup]
  have new: "CreateVolume K d req w = CreateVolume_new K d req (cv_Name req) n ?fs ?w1"
    if "err = Some ErrNotFound" "disk = None"
    using eq that by (simp add: CreateVolume_lookup_error_def)
  have s1: "backend ?w1 = s1"
    by (simp add: after_call_def)
  have creates: "\<exists>created cerr s2.
        cloud_CreateDisk d (cv_Name req) (create_options K req n iopsPerGB snapshotId) s1 =
          ((created, cerr), s2)
        \<and> CreateVolume K d req w =
            (created_volume_result K req created cerr,
             after_call ?w1 s2
               (CreateDisk_call (cv_Name req) (create_options K req n iopsPerGB snapshotId)))"
    if absent: "err = Some ErrNotFound" "disk = None"
      and iops: "index (cv_Parameters req) (VolumeTypeKey K) \<noteq> VolumeTypeIO1 K \<and> iopsPerGB = 0
        \<or> index (cv_Parameters req) (VolumeTypeKey K) = VolumeTypeIO1 K
          \<and> Atoi K (index (cv_Parameters req) (IopsPerGBKey K)) = (iopsPerGB, None)"
      and src: "cv_VolumeContentSource req = None \<and> snapshotId = []
        \<or> cv_VolumeContentSource req = Some (VolumeContentSource_Snapshot (Some snapshotId))"
    for iopsPerGB snapshotId
  proof -
    obtain created cerr s2
      where cr: "cloud_CreateDisk d (cv_Name req) (create_options K req n iopsPerGB snapshotId) s1 =
        ((created, cerr), s2)"
      by (metis surj_pair)
    then have "cloud_CreateDisk d (cv_Name req) (create_options K req n iopsPerGB snapshotId)
        (backend ?w1) = ((created, cerr), s2)"
      by (simp only: s1)
    from CreateVolume_new_creates [OF iops src this] new [OF absent] cr
    show ?thesis by simp
  qed
  have parse: "CreateVolume K d req w =
        (Inl (Status InvalidArgument
           (Formatted ''Could not parse invalid iopsPerGB: %v'' [ArgError e])), ?w1)"
    if "err = Some ErrNotFound" "disk = None"
      "index (cv_Parameters req) (VolumeTypeKey K) = VolumeTypeIO1 K"
      "Atoi K (index (cv_Parameters req) (IopsPerGBKey K)) = (m, Some e)" for m e
    using new [OF that(1,2)] CreateVolume_new_iops_rejected [OF that(3,4)] by simp
  have no_snapshot: "CreateVolume K d req w =
        (Inl (Status InvalidArgument
           (Text ''Error retrieving snapshot from the volumeContentSource'')), ?w1)"
    if "err = Some ErrNotFound" "disk = None" ?iops_ok
      "cv_VolumeContentSource req = Some (VolumeContentSource_Snapshot None)"
  proof -
    have "CreateVolume_source (Some (VolumeContentSource_Snapshot None)) undefined =
        Inl (Status InvalidArgument (Text ''Error retrieving snapshot from the volumeContentSource''))"
      by (simp add: CreateVolume_source_def)
    from CreateVolume_new_source_rejected [OF that(3,4) this] new [OF that(1,2)]
    show ?thesis by simp
  qed
  have unsupported: "CreateVolume K d req w =
        (Inl (Status InvalidArgument (Text ''Unsupported volumeContentSource type'')), ?w1)"
    if "err = Some ErrNotFound" "disk = None" ?iops_ok
      "cv_VolumeContentSource req = Some VolumeContentSource_None
       \<or> (\<exists>v. cv_VolumeContentSource req = Some (VolumeContentSource_Volume v))"
  proof -
    from that(4) obtain x where x: "cv_VolumeContentSource req = Some x"
      and "x = VolumeContentSource_None \<or> (\<exists>v. x = VolumeContentSource_Volume v)"
      by auto
    then have "CreateVolume_source (Some x) undefined =
        Inl (Status InvalidArgument (Text ''Unsupported volumeContentSource type''))"
      by (auto simp: CreateVolume_source_def)
    from CreateVolume_new_source_rejected [OF that(3) x this] new [OF that(1,2)]
    show ?thesis by simp
  qed
  have diff: "CreateVolume K d req w = (Inl (Status AlreadyExists (ErrorText ErrDiskExistsDiffSize)), ?w1)"
    if "err = Some ErrDiskExistsDiffSize"
    using eq that by (simp add: CreateVolume_lookup_error_def)
  have other: "CreateVolume K d req w = (Inl (Status Internal (ErrorText e)), ?w1)"
    if "err = Some e" "e \<noteq> ErrNotFound" "e \<noteq> ErrDiskExistsDiffSize" for e
    using eq that by (simp add: CreateVolume_lookup_error_def)
  have found: "calls (snd (CreateVolume K d req w)) = calls ?w1" if "disk \<noteq> None"
    using eq that by (auto simp: split: option.splits)
  have failed: "calls (snd (CreateVolume K d req w)) = calls ?w1"
    if "err \<noteq> None" "err \<noteq> Some ErrNotFound"
    using eq that by (auto simp: CreateVolume_lookup_error_def split: option.splits)
  have no_create: "filter is_CreateDisk (calls (snd (CreateVolume K d req w))) = filter is_CreateDisk (calls w)"
    if "disk \<noteq> None \<or> (err \<noteq> None \<and> err \<noteq> Some ErrNotFound)"
  proof -
    from that found failed
    have "calls (snd (CreateVolume K d req w)) = calls w @ [GetDiskByName_call (cv_Name req) n]"
      by (auto simp: after_call_def)
    then show ?thesis by simp
  qed
  have multi: "CreateVolume K d req w = (Inl (Status Internal (ErrorText ErrMultiDisks)), ?w1)"
    if "err = Some ErrMultiDisks"
    using other [OF that] by simp
  have absent_all: "(\<forall>iopsPerGB snapshotId.
               (index (cv_Parameters req) (VolumeTypeKey K) \<noteq> VolumeTypeIO1 K \<and> iopsPerGB = 0
                \<or> index (cv_Parameters req) (VolumeTypeKey K) = VolumeTypeIO1 K
                  \<and> Atoi K (index (cv_Parameters req) (IopsPerGBKey K)) = (iopsPerGB, None))
               \<and> (cv_VolumeContentSource req = None \<and> snapshotId = []
                  \<or> cv_VolumeContentSource req = Some (VolumeContentSource_Snapshot (Some snapshotId)))
               \<longrightarrow>
               (\<exists>created cerr s2.
                  cloud_CreateDisk d (cv_Name req) (create_options K req n iopsPerGB snapshotId) s1 =
                    ((created, cerr), s2)
                  \<and> CreateVolume K d req w =
                      (created_volume_result K req created cerr,
                       after_call ?w1 s2
                         (CreateDisk_call (cv_Name req)
                            (create_options K req n iopsPerGB snapshotId)))))
          \<and> (\<forall>m e.
               index (cv_Parameters req) (VolumeTypeKey K) = VolumeTypeIO1 K
               \<and> Atoi K (index (cv_Parameters req) (IopsPerGBKey K)) = (m, Some e) \<longrightarrow>
               CreateVolume K d req w =
                 (Inl (Status InvalidArgument
                    (Formatted ''Could not parse invalid iopsPerGB: %v'' [ArgError e])), ?w1))
          \<and> (?iops_ok
              \<and> cv_VolumeContentSource req = Some (VolumeContentSource_Snapshot None) \<longrightarrow>
               CreateVolume K d req w =
                 (Inl (Status InvalidArgument
                    (Text ''Error retrieving snapshot from the volumeContentSource'')), ?w1))
          \<and> (?iops_ok
              \<and> (cv_VolumeContentSource req = Some VolumeContentSource_None
                  \<or> (\<exists>v. cv_VolumeContentSource req = Some (VolumeContentSource_Volume v))) \<longrightarrow>
               CreateVolume K d req w =
                 (Inl (Status InvalidArgument (Text ''Unsupported volumeContentSource type'')), ?w1))"
    if absent: "err = Some ErrNotFound" "disk = None"
  proof (intro conjI allI impI)
    fix iopsPerGB snapshotId
    assume "(index (cv_Parameters req) (VolumeTypeKey K) \<noteq> VolumeTypeIO1 K \<and> iopsPerGB = 0
                \<or> index (cv_Parameters req) (VolumeTypeKey K) = VolumeTypeIO1 K
                  \<and> Atoi K (index (cv_Parameters req) (IopsPerGBKey K)) = (iopsPerGB, None))
               \<and> (cv_VolumeContentSource req = None \<and> snapshotId = []
                  \<or> cv_VolumeContentSource req = Some (VolumeContentSource_Snapshot (Some snapshotId)))"
    then show "\<exists>created cerr s2.
                  cloud_CreateDisk d (cv_Name req) (create_options K req n iopsPerGB snapshotId) s1 =
                    ((created, cerr), s2)
                  \<and> CreateVolume K d req w =
                      (created_volume_result K req created cerr,
                       after_call ?w1 s2
                         (CreateDisk_call (cv_Name req)
                            (create_options K req n iopsPerGB snapshotId)))"
      using creates [OF absent, of iopsPerGB snapshotId] by (elim conjE) simp
  next
    fix m e
    assume "index (cv_Parameters req) (VolumeTypeKey K) = VolumeTypeIO1 K
               \<and> Atoi K (index (cv_Parameters req) (IopsPerGBKey K)) = (m, Some e)"
    then show "CreateVolume K d req w =
                 (Inl (Status InvalidArgument
                    (Formatted ''Could not parse invalid iopsPerGB: %v'' [ArgError e])), ?w1)"
      using parse [OF absent, of m e] by simp
  next
    assume "?iops_ok \<and> cv_VolumeContentSource req = Some (VolumeContentSource_Snapshot None)"
    then show "CreateVolume K d req w =
                 (Inl (Status InvalidArgument
                    (Text ''Error retrieving snapshot from the volumeContentSource'')), ?w1)"
      using no_snapshot [OF absent] by (elim conjE) simp
  next
    assume "?iops_ok \<and> (cv_VolumeContentSource req = Some VolumeContentSource_None
                  \<or> (\<exists>v. cv_VolumeContentSource req = Some (VolumeContentSource_Volume v)))"
    then show "CreateVolume K d req w =
                 (Inl (Status InvalidArgument (Text ''Unsupported volumeContentSource type'')), ?w1)"
      using unsupported [OF absent] by (elim conjE) simp
  qed
  from absent_all diff multi other no_create show ?thesis
    by (intro conjI impI allI) blast+
qed

lemma valid_small: "CreateVolume_validated pkg0 req_small GiB"
  by (simp add: CreateVolume_validated_def req_small_def create_req_def CreateVolume_size_def
      RoundUpBytes_one Let_def
      isValidVolumeCapabilities_def hasSupport_def volumeCaps_def writer_def GetMode_def)

lemma valid_variants:
  "CreateVolume_validated pkg0 req_volume_source (100 * GiB)"
  "CreateVolume_validated pkg0 req_io1 (100 * GiB)"
  using valid0
  by (simp_all add: CreateVolume_validated_def req_volume_source_def req_io1_def)

theorem CreateVolume_lookup_classification_witness:
  "CreateVolume pkg0 (memCloud pkg0) req0 world0 =
     (Inr (newCreateVolumeResponse pkg0 (vol0\<lparr>FsType := ''ext4''\<rparr>)), world1)
   \<and> calls world1 =
       [GetDiskByName_call ''pvc-1'' (100 * GiB),
        CreateDisk_call ''pvc-1'' (create_options pkg0 req0 (100 * GiB) 0 [])]
   \<and> CreateVolume pkg0 (memCloud pkg0) req_volume_source world0 =
       (Inl (Status InvalidArgument (Text ''Unsupported volumeContentSource type'')),
        after_call world0 (backend world0) (GetDiskByName_call ''pvc-1'' (100 * GiB)))
   \<and> CreateVolume pkg0 (memCloud pkg0) req_io1 world0 =
       (Inl (Status InvalidArgument
          (Formatted ''Could not parse invalid iopsPerGB: %v'' [ArgError (ErrOther ''invalid syntax'')])),
        after_call world0 (backend world0) (GetDiskByName_call ''pvc-1'' (100 * GiB)))
   \<and> CreateVolume pkg0 (memCloud pkg0) req_small world1 =
       (Inl (Status AlreadyExists (ErrorText ErrDiskExistsDiffSize)),
        after_call world1 (backend world1) (GetDiskByName_call ''pvc-1'' GiB))
   \<and> CreateVolume pkg0 (memCloud pkg0) req0 world2 =
       (Inl (Status Internal (ErrorText ErrMultiDisks)),
        after_call world2 (backend world2) (GetDiskByName_call ''pvc-1'' (100 * GiB)))
   \<and> CreateVolume pkg0 timeoutCloud req0 world0 =
       (Inl (Status Internal (ErrorText (ErrOther ''timeout''))),
        after_call world0 (backend world0) (GetDiskByName_call ''pvc-1'' (100 * GiB)))"
proof -
  have name0: "cv_Name req0 = ''pvc-1''" and name1: "cv_Name req_small = ''pvc-1''"
    and name2: "cv_Name req_volume_source = ''pvc-1''" and name3: "cv_Name req_io1 = ''pvc-1''"
    by (simp_all add: req0_def req_small_def req_volume_source_def req_io1_def create_req_def)
  have absent: "cloud_GetDiskByName (memCloud pkg0) ''pvc-1'' (100 * GiB) (backend world0) =
      ((None, Some ErrNotFound), backend world0)"
    by (simp add: memCloud_def mem_GetDiskByName_def world0_def)
  have diff: "cloud_GetDiskByName (memCloud pkg0) (cv_Name req_small) GiB (backend world1) =
      ((None, Some ErrDiskExistsDiffSize), backend world1)"
    by (simp add: memCloud_def mem_GetDiskByName_def world1_def name1 vol0_def GiBToBytes_100 GiB_def)
  have multi: "cloud_GetDiskByName (memCloud pkg0) (cv_Name req0) (100 * GiB) (backend world2) =
      ((None, Some ErrMultiDisks), backend world2)"
    by (simp add: memCloud_def mem_GetDiskByName_def world2_def name0)
  have other: "cloud_GetDiskByName timeoutCloud (cv_Name req0) (100 * GiB) (backend world0) =
      ((None, Some (ErrOther ''timeout'')), backend world0)"
    by (simp add: timeoutCloud_def)
  have opts0: "create_options pkg0 req0 (100 * GiB) 0 [] =
      \<lparr>do_CapacityBytes = 100 * GiB, do_Tags = [''volume-name'' \<mapsto> ''pvc-1''],
       do_VolumeType = [], do_IOPSPerGB = 0, do_AvailabilityZone = ''a'',
       do_Encrypted = False, do_KmsKeyID = [], do_SnapshotID = []\<rparr>"
    by (simp add: create_options_def req0_def create_req_def pkg0_def index_def
        pickAvailabilityZone_def)
  have create: "cloud_CreateDisk (memCloud pkg0) ''pvc-1'' (create_options pkg0 req0 (100 * GiB) 0 [])
        (backend world0) = ((Some vol0, None), backend world1)"
    by (simp add: opts0) (simp add: memCloud_def mem_CreateDisk_def world0_def world1_def vol0_def
        GiB_def Let_def)
  have plain: "index (cv_Parameters req0) (VolumeTypeKey pkg0) \<noteq> VolumeTypeIO1 pkg0"
    "index (cv_Parameters req_volume_source) (VolumeTypeKey pkg0) \<noteq> VolumeTypeIO1 pkg0"
    "cv_VolumeContentSource req0 = None"
    "cv_VolumeContentSource req_volume_source = Some (VolumeContentSource_Volume None)"
    by (simp_all add: req0_def req_volume_source_def create_req_def pkg0_def index_def)
  have io1: "index (cv_Parameters req_io1) (VolumeTypeKey pkg0) = VolumeTypeIO1 pkg0"
    "Atoi pkg0 (index (cv_Parameters req_io1) (IopsPerGBKey pkg0)) = (0, Some (ErrOther ''invalid syntax''))"
    by (simp_all add: req_io1_def req0_def create_req_def pkg0_def index_def sample_Atoi_def)
  note t0 = CreateVolume_lookup_classification [OF valid0, of "memCloud pkg0" world0 None
      "Some ErrNotFound" "backend world0", unfolded name0, OF absent, THEN conjunct1, THEN mp,
      OF conjI [OF refl refl]]
  note tv = CreateVolume_lookup_classification [OF valid_variants(1), of "memCloud pkg0" world0 None
      "Some ErrNotFound" "backend world0", unfolded name2, OF absent, THEN conjunct1, THEN mp,
      OF conjI [OF refl refl]]
  note ti = CreateVolume_lookup_classification [OF valid_variants(2), of "memCloud pkg0" world0 None
      "Some ErrNotFound" "backend world0", unfolded name3, OF absent, THEN conjunct1, THEN mp,
      OF conjI [OF refl refl]]
  have w1: "world1 = after_call (after_call world0 (backend world0) (GetDiskByName_call ''pvc-1'' (100 * GiB)))
        (backend world1) (CreateDisk_call ''pvc-1'' (create_options pkg0 req0 (100 * GiB) 0 []))"
    by (simp add: opts0) (simp add: world1_def world0_def after_call_def)
  have fs0: "created_volume_result pkg0 req0 (Some vol0) None =
      Inr (newCreateVolumeResponse pkg0 (vol0\<lparr>FsType := ''ext4''\<rparr>))"
    by (simp add: created_volume_result_def req0_def create_req_def pkg0_def index_def)
  have a: "CreateVolume pkg0 (memCloud pkg0) req0 world0 =
     (Inr (newCreateVolumeResponse pkg0 (vol0\<lparr>FsType := ''ext4''\<rparr>)), world1)"
  proof -
    from t0 [THEN conjunct1, rule_format, of 0 "[]"] have "\<exists>created cerr s2.
        cloud_CreateDisk (memCloud pkg0) ''pvc-1'' (create_options pkg0 req0 (100 * GiB) 0 [])
          (backend world0) = ((created, cerr), s2)
        \<and> CreateVolume pkg0 (memCloud pkg0) req0 world0 =
            (created_volume_result pkg0 req0 created cerr,
             after_call (after_call world0 (backend world0) (GetDiskByName_call ''pvc-1'' (100 * GiB)))
               s2 (CreateDisk_call ''pvc-1'' (create_options pkg0 req0 (100 * GiB) 0 [])))"
      using plain(1,3) by simp
    then show ?thesis
      using create fs0 w1 by (elim exE conjE) simp
  qed
  have b: "calls world1 =
       [GetDiskByName_call ''pvc-1'' (100 * GiB),
        CreateDisk_call ''pvc-1'' (create_options pkg0 req0 (100 * GiB) 0 [])]"
    by (simp add: opts0) (simp add: world1_def)
  have c: "CreateVolume pkg0 (memCloud pkg0) req_volume_source world0 =
       (Inl (Status InvalidArgument (Text ''Unsupported volumeContentSource type'')),
        after_call world0 (backend world0) (GetDiskByName_call ''pvc-1'' (100 * GiB)))"
    using tv [THEN conjunct2, THEN conjunct2, THEN conjunct2] plain(2,4) by simp
  have d: "CreateVolume pkg0 (memCloud pkg0) req_io1 world0 =
       (Inl (Status InvalidArgument
          (Formatted ''Could not parse invalid iopsPerGB: %v'' [ArgError (ErrOther ''invalid syntax'')])),
        after_call world0 (backend world0) (GetDiskByName_call ''pvc-1'' (100 * GiB)))"
    using ti [THEN conjunct2, THEN conjunct1, rule_format, OF conjI [OF io1]] by simp
  from CreateVolume_lookup_classification [OF valid_small diff]
    CreateVolume_lookup_classification [OF valid0 multi]
    CreateVolume_lookup_classification [OF valid0 other]
  have e: "CreateVolume pkg0 (memCloud pkg0) req_small world1 =
       (Inl (Status AlreadyExists (ErrorText ErrDiskExistsDiffSize)),
        after_call world1 (backend world1) (GetDiskByName_call ''pvc-1'' GiB))
   \<and> CreateVolume pkg0 (memCloud pkg0) req0 world2 =
       (Inl (Status Internal (ErrorText ErrMultiDisks)),
        after_call world2 (backend world2) (GetDiskByName_call ''pvc-1'' (100 * GiB)))
   \<and> CreateVolume pkg0 timeoutCloud req0 world0 =
       (Inl (Status Internal (ErrorText (ErrOther ''timeout''))),
        after_call world0 (backend world0) (GetDiskByName_call ''pvc-1'' (100 * GiB)))"
    by (simp add: name0 name1)
  from a b c d e show ?thesis
    by (intro conjI) simp_all
qed

section \<open>Capacity normalization\<close>

lemma round_up_multiple:
  fixes u b :: int
  assumes "0 < u"
  shows "u dvd ((b + u - 1) div u) * u"
    and "b \<le> ((b + u - 1) div u) * u"
    and "((b + u - 1) div u) * u < b + u"
proof -
  let ?q = "(b + u - 1) div u" and ?m = "(b + u - 1) mod u"
  have split: "b + u - 1 = ?q * u + ?m"
    by simp
  have m: "0 \<le> ?m" "?m < u"
    using assms by simp_all
  show "u dvd ?q * u" by simp
  from split m show "b \<le> ?q * u" by linarith
  from split m show "?q * u < b + u" by linarith
qed

lemma round_up_fixed:
  fixes u b :: int
  assumes "0 < u"
  shows "((b + u - 1) div u) * u = b \<longleftrightarrow> u dvd b"
proof
  assume "((b + u - 1) div u) * u = b"
  then have "b = ((b + u - 1) div u) * u" by simp
  then show "u dvd b" by (metis dvd_triv_right)
next
  assume "u dvd b"
  then obtain k where k: "b = u * k" ..
  have "(u * k + u - 1) div u = k + (u - 1) div u"
    using assms by (metis add_diff_eq div_mult_self4 less_irrefl)
  also have "(u - 1) div u = 0"
    using assms by simp
  finally show "((b + u - 1) div u) * u = b"
    using k by simp
qed

lemma RoundUpBytes_int64: "is_int64 (RoundUpBytes b)"
  by (simp add: RoundUpBytes_def int64_range)

lemma RoundUpBytes_exact:
  assumes "- (2 ^ 63) \<le> b" and "b \<le> 2 ^ 63 - GiB"
  shows "RoundUpBytes b = ((b + GiB - 1) div GiB) * GiB"
proof -
  from round_up_multiple(2,3) [OF GiB_pos, of b] assms
  have "is_int64 (((b + GiB - 1) div GiB) * GiB)"
    unfolding is_int64_def by linarith
  then show ?thesis
    by (simp add: RoundUpBytes_def int64_id)
qed

lemma RoundUpBytes_props:
  assumes "- (2 ^ 63) \<le> b" and "b \<le> 2 ^ 63 - GiB"
  shows "GiB dvd RoundUpBytes b" "b \<le> RoundUpBytes b" "RoundUpBytes b < b + GiB"
    "RoundUpBytes b = b \<longleftrightarrow> GiB dvd b"
  using round_up_multiple [OF GiB_pos, of b] round_up_fixed [OF GiB_pos, of b]
  by (simp_all add: RoundUpBytes_exact [OF assms])

lemma CreateVolume_size_Some:
  "CreateVolume_size K (Some r) =
     (if 0 < LimitBytes r \<and> LimitBytes r < RoundUpBytes (RequiredBytes r)
      then Inl (Status InvalidArgument
             (Text ''After round-up, volume size exceeds the limit specified''))
      else Inr (RoundUpBytes (RequiredBytes r)))"
  by (simp add: CreateVolume_size_def Let_def)

lemma CreateVolume_size_rejected:
  "cv_Name req \<noteq> [] \<Longrightarrow> CreateVolume_size K (cv_CapacityRange req) = Inl e
   \<Longrightarrow> CreateVolume K d req w = (Inl e, w)"
  by (simp add: CreateVolume_def)

lemma CreateVolume_looks_up_size:
  assumes "CreateVolume_validated K req n"
  shows "\<exists>rest. calls (snd (CreateVolume K d req w)) = calls w @ GetDiskByName_call (cv_Name req) n # rest"
proof -
  obtain disk err s1 where look: "cloud_GetDiskByName d (cv_Name req) n (backend w) = ((disk, err), s1)"
    by (metis surj_pair)
  let ?w1 = "after_call w s1 (GetDiskByName_call (cv_Name req) n)"
  let ?fs = "index (cv_Parameters req) (FsTypeKey K)"
  have new: "\<exists>rest. calls (snd (CreateVolume_new K d req (cv_Name req) n ?fs ?w1)) = calls ?w1 @ rest"
    using CreateVolume_new_outcome [of K d req "cv_Name req" n ?fs ?w1]
    by (auto simp: after_call_def)
  have "\<exists>rest. calls (snd (CreateVolume K d req w)) = calls ?w1 @ rest"
    using CreateVolume_after_lookup [OF assms look] new
    by (auto split: option.splits)
  then show ?thesis by (simp add: after_call_def)
qed

text \<open>
  C3 (amended). Capacity normalization in CreateVolume, on 64-bit sizes. With no capacity
  range the default size is used. Otherwise the required bytes are rounded up and the call
  fails with an invalid-request error exactly when the limit is positive and below the
  rounded value. For required bytes from 0 to \<open>2^63 - GiB\<close> the rounded value is the
  nearest multiple of the allocation unit not below them (one byte becomes one full unit);
  it is a 64-bit value in every case. A request whose required bytes equal its limit
  bytes, up to \<open>2^63 - GiB\<close>, is accepted exactly when that value is a multiple of the
  allocation unit or not positive; with the largest 64-bit limit no request is rejected.
  A rejected size ends the call before any backend call; an accepted one is the size the
  by-name lookup is called with.
\<close>

theorem CreateVolume_capacity_normalization:
  "CreateVolume_size K None = Inr (DefaultVolumeSize K)
   \<and> CreateVolume_size K (Some r) =
       (if 0 < LimitBytes r \<and> LimitBytes r < RoundUpBytes (RequiredBytes r)
        then Inl (Status InvalidArgument
               (Text ''After round-up, volume size exceeds the limit specified''))
        else Inr (RoundUpBytes (RequiredBytes r)))
   \<and> is_int64 (RoundUpBytes b)
   \<and> (0 \<le> b \<and> b \<le> 2 ^ 63 - GiB \<longrightarrow>
        GiB dvd RoundUpBytes b \<and> b \<le> RoundUpBytes b \<and> RoundUpBytes b < b + GiB)
   \<and> RoundUpBytes 1 = GiB
   \<and> (RequiredBytes r = LimitBytes r \<and> LimitBytes r \<le> 2 ^ 63 - GiB \<longrightarrow>
        ((\<exists>n. CreateVolume_size K (Some r) = Inr n) \<longleftrightarrow> LimitBytes r \<le> 0 \<or> GiB dvd RequiredBytes r))
   \<and> (LimitBytes r = 2 ^ 63 - 1 \<longrightarrow> (\<exists>n. CreateVolume_size K (Some r) = Inr n))
   \<and> (cv_Name req \<noteq> [] \<and> CreateVolume_size K (cv_CapacityRange req) = Inl e \<longrightarrow>
        CreateVolume K d req w = (Inl e, w))
   \<and> (CreateVolume_validated K req n \<longrightarrow>
        (\<exists>rest. calls (snd (CreateVolume K d req w)) =
                  calls w @ GetDiskByName_call (cv_Name req) n # rest))"
proof -
  have rounding: "GiB dvd RoundUpBytes b \<and> b \<le> RoundUpBytes b \<and> RoundUpBytes b < b + GiB"
    if "0 \<le> b" "b \<le> 2 ^ 63 - GiB"
  proof -
    from that have lo: "- (2 ^ 63) \<le> b" by simp
    from RoundUpBytes_props(1-3) [OF lo that(2)] show ?thesis by simp
  qed
  have at_limit: "(\<exists>n. CreateVolume_size K (Some r) = Inr n) \<longleftrightarrow> LimitBytes r \<le> 0 \<or> GiB dvd RequiredBytes r"
    if eq: "RequiredBytes r = LimitBytes r" and hi: "LimitBytes r \<le> 2 ^ 63 - GiB"
  proof (cases "LimitBytes r \<le> 0")
    case True
    then show ?thesis by (simp add: CreateVolume_size_Some)
  next
    case False
    then have lo: "- (2 ^ 63) \<le> LimitBytes r" by simp
    have "(\<exists>n. CreateVolume_size K (Some r) = Inr n)
        \<longleftrightarrow> \<not> LimitBytes r < RoundUpBytes (LimitBytes r)"
      using False by (simp add: CreateVolume_size_Some eq)
    also have "\<dots> \<longleftrightarrow> RoundUpBytes (LimitBytes r) = LimitBytes r"
      using RoundUpBytes_props(2) [OF lo hi] by linarith
    also have "\<dots> \<longleftrightarrow> GiB dvd RequiredBytes r"
      by (simp add: RoundUpBytes_props(4) [OF lo hi] eq)
    finally show ?thesis using False by simp
  qed
  have top: "\<exists>n. CreateVolume_size K (Some r) = Inr n" if "LimitBytes r = 2 ^ 63 - 1"
  proof -
    from RoundUpBytes_int64 [of "RequiredBytes r"] that
    have "\<not> LimitBytes r < RoundUpBytes (RequiredBytes r)"
      by (simp add: is_int64_def)
    then show ?thesis by (simp add: CreateVolume_size_Some)
  qed
  show ?thesis
    using rounding at_limit top RoundUpBytes_one RoundUpBytes_int64 [of b] CreateVolume_size_Some [of K r]
      CreateVolume_size_rejected [of req K e d w] CreateVolume_looks_up_size [of K req n d w]
    by (simp add: CreateVolume_size_def)
qed

text \<open>
  The claim as first stated accepts every request whose required bytes equal its limit
  bytes. At one byte for both, the rounded size is one full unit, above the limit, and the
  call is rejected.
\<close>

theorem CreateVolume_required_equals_limit_counterexample:
  "CreateVolume pkg0 (memCloud pkg0) (req_at_limit 1) world0 =
     (Inl (Status InvalidArgument
        (Text ''After round-up, volume size exceeds the limit specified'')), world0)"
  by (simp add: CreateVolume_def req_at_limit_def create_req_def CreateVolume_size_def
      RoundUpBytes_one GiB_def Let_def)

theorem CreateVolume_capacity_normalization_witness:
  "CreateVolume_size pkg0 None = Inr (100 * GiB)
   \<and> RoundUpBytes 1 = GiB
   \<and> CreateVolume_size pkg0 (cv_CapacityRange (req_at_limit (2 * GiB))) = Inr (2 * GiB)
   \<and> CreateVolume_size pkg0 (cv_CapacityRange (req_at_limit 1)) =
       Inl (Status InvalidArgument (Text ''After round-up, volume size exceeds the limit specified''))
   \<and> CreateVolume pkg0 (memCloud pkg0) (req_at_limit 1) world0 =
       (Inl (Status InvalidArgument (Text ''After round-up, volume size exceeds the limit specified'')),
        world0)
   \<and> (\<exists>n. CreateVolume_size pkg0 (cv_CapacityRange (req_at_limit (2 ^ 63 - 1))) = Inr n)
   \<and> (\<exists>rest. calls (snd (CreateVolume pkg0 (memCloud pkg0) req_small world0)) =
         GetDiskByName_call ''pvc-1'' GiB # rest)"
proof -
  let ?r2 = "\<lparr>RequiredBytes = 2 * GiB, LimitBytes = 2 * GiB\<rparr>"
  let ?r1 = "\<lparr>RequiredBytes = 1, LimitBytes = 1\<rparr>"
  let ?rmax = "\<lparr>RequiredBytes = 2 ^ 63 - 1, LimitBytes = 2 ^ 63 - 1\<rparr>"
  let ?e = "Status InvalidArgument (Text ''After round-up, volume size exceeds the limit specified'')"
  note t2 = CreateVolume_capacity_normalization
      [of pkg0 ?r2 "2 * GiB" "req_at_limit 1" ?e "memCloud pkg0" world0 GiB]
  note t1 = CreateVolume_capacity_normalization
      [of pkg0 ?r1 1 req_small ?e "memCloud pkg0" world0 GiB]
  note tmax = CreateVolume_capacity_normalization
      [of pkg0 ?rmax 1 req_small ?e "memCloud pkg0" world0 GiB]
  have a: "CreateVolume_size pkg0 None = Inr (100 * GiB)"
    using t2 by (simp add: pkg0_def)
  have one: "RoundUpBytes 1 = GiB"
    using t1 by simp
  have "- (2 ^ 63) \<le> 2 * GiB" and "2 * GiB \<le> 2 ^ 63 - GiB"
    by (simp_all add: GiB_def)
  from RoundUpBytes_props(4) [OF this]
  have two: "RoundUpBytes (2 * GiB) = 2 * GiB"
    by simp
  have b: "CreateVolume_size pkg0 (cv_CapacityRange (req_at_limit (2 * GiB))) = Inr (2 * GiB)"
    using t2 [THEN conjunct2, THEN conjunct1] two
    by (simp add: req_at_limit_def create_req_def)
  have c: "CreateVolume_size pkg0 (cv_CapacityRange (req_at_limit 1)) = Inl ?e"
    using t1 [THEN conjunct2, THEN conjunct1] one
    by (simp add: req_at_limit_def create_req_def GiB_def)
  have "cv_Name (req_at_limit 1) \<noteq> []"
    by (simp add: req_at_limit_def create_req_def)
  with c t2 have d: "CreateVolume pkg0 (memCloud pkg0) (req_at_limit 1) world0 = (Inl ?e, world0)"
    by blast
  have "LimitBytes ?rmax = 2 ^ 63 - 1"
    by simp
  from tmax [THEN conjunct2, THEN conjunct2, THEN conjunct2, THEN conjunct2, THEN conjunct2,
      THEN conjunct2, THEN conjunct1, rule_format, OF this]
  have m: "\<exists>n. CreateVolume_size pkg0 (cv_CapacityRange (req_at_limit (2 ^ 63 - 1))) = Inr n"
    by (simp only: req_at_limit_def create_req_def CreateVolumeRequest.simps option.simps)
  have e: "\<exists>rest. calls (snd (CreateVolume pkg0 (memCloud pkg0) req_small world0)) =
         GetDiskByName_call ''pvc-1'' GiB # rest"
    using t1 valid_small by (simp add: world0_def req_small_def create_req_def)
  from a one b c d m e show ?thesis by blast
qed

section \<open>Properties of CreateSnapshot\<close>

lemma CreateSnapshot_after_lookup:
  assumes "cs_Name req \<noteq> []" and "cs_SourceVolumeId req \<noteq> []"
    and "cloud_GetSnapshotByName d (cs_Name req) (backend w) = ((snapshot, err), s1)"
    and "err = None \<or> err = Some ErrNotFound"
  shows "CreateSnapshot K d req w =
    (case snapshot of
       Some snap \<Rightarrow>
         (if SourceVolumeID snap \<noteq> cs_SourceVolumeId req
          then Inl (Status AlreadyExists
                 (Formatted ''Snapshot %s already exists for different volume (%s)''
                    [ArgString (cs_Name req), ArgString (SourceVolumeID snap)]))
          else newCreateSnapshotResponse K snap,
          after_call w s1 (GetSnapshotByName_call (cs_Name req)))
     | None \<Rightarrow>
         (case cloud_CreateSnapshot d (cs_SourceVolumeId req) (snapshot_opts K (cs_Name req)) s1 of
            ((snapshot', err'), s2) \<Rightarrow>
              (created_snapshot_result K (cs_Name req) snapshot' err',
               after_call (after_call w s1 (GetSnapshotByName_call (cs_Name req))) s2
                 (CreateSnapshot_call (cs_SourceVolumeId req) (snapshot_opts K (cs_Name req))))))"
  using assms
  by (auto simp: CreateSnapshot_def CreateSnapshot_lookup_error_def invoke_def after_call_def
      snapshot_opts_def created_snapshot_result_def Let_def split: option.splits prod.splits)

lemma newCreateSnapshotResponse_ok:
  "TimestampProto K (CreationTime snap) = (ts, None) \<Longrightarrow>
   newCreateSnapshotResponse K snap =
     Inr \<lparr>Snapshot = \<lparr>SnapshotId = SnapshotID snap, SourceVolumeId = SourceVolumeID snap,
                      SizeBytes = Size snap, csi_CreationTime = ts,
                      csi_ReadyToUse = ReadyToUse snap\<rparr>\<rparr>"
  by (simp add: newCreateSnapshotResponse_def)

lemma newCreateSnapshotResponse_failed:
  "TimestampProto K (CreationTime snap) = (ts, Some e) \<Longrightarrow>
   newCreateSnapshotResponse K snap = Inl (Unwrapped e)"
  by (simp add: newCreateSnapshotResponse_def)

text \<open>
  C4 (amended). CreateSnapshot classifies the by-name lookup. For a request with a name
  and a source volume id, and a lookup that did not fail: if a snapshot is found whose
  source volume id equals the requested one, nothing is created and the call returns the
  translation of that existing record, whatever its readiness flag; it succeeds, with the
  record's identifier, size and readiness flag, whenever the record's creation timestamp
  converts. If the source volume id differs, the call fails with AlreadyExists. If no
  snapshot is found, the backend's creation is called with the source volume id and the
  name tag, and its result decides the outcome.
\<close>

theorem CreateSnapshot_lookup_classification:
  assumes name: "cs_Name req \<noteq> []" and vol: "cs_SourceVolumeId req \<noteq> []"
    and lookup: "cloud_GetSnapshotByName d (cs_Name req) (backend w) = ((snapshot, err), s1)"
    and err: "err = None \<or> err = Some ErrNotFound"
  shows "(\<forall>snap. snapshot = Some snap \<and> SourceVolumeID snap = cs_SourceVolumeId req \<longrightarrow>
            CreateSnapshot K d req w =
              (newCreateSnapshotResponse K snap, after_call w s1 (GetSnapshotByName_call (cs_Name req)))
            \<and> (\<forall>ts. TimestampProto K (CreationTime snap) = (ts, None) \<longrightarrow>
                  fst (CreateSnapshot K d req w) =
                    Inr \<lparr>Snapshot = \<lparr>SnapshotId = SnapshotID snap,
                                     SourceVolumeId = SourceVolumeID snap,
                                     SizeBytes = Size snap, csi_CreationTime = ts,
                                     csi_ReadyToUse = ReadyToUse snap\<rparr>\<rparr>))
       \<and> (\<forall>snap. snapshot = Some snap \<and> SourceVolumeID snap \<noteq> cs_SourceVolumeId req \<longrightarrow>
            CreateSnapshot K d req w =
              (Inl (Status AlreadyExists
                 (Formatted ''Snapshot %s already exists for different volume (%s)''
                    [ArgString (cs_Name req), ArgString (SourceVolumeID snap)])),
               after_call w s1 (GetSnapshotByName_call (cs_Name req))))
       \<and> (snapshot = None \<longrightarrow>
            (\<forall>snapshot' err' s2.
               cloud_CreateSnapshot d (cs_SourceVolumeId req) (snapshot_opts K (cs_Name req)) s1 =
                 ((snapshot', err'), s2) \<longrightarrow>
               CreateSnapshot K d req w =
                 (created_snapshot_result K (cs_Name req) snapshot' err',
                  after_call (after_call w s1 (GetSnapshotByName_call (cs_Name req))) s2
                    (CreateSnapshot_call (cs_SourceVolumeId req) (snapshot_opts K (cs_Name req))))))"
proof -
  note eq = CreateSnapshot_after_lookup [OF name vol lookup err, of K]
  have found: "CreateSnapshot K d req w =
      (newCreateSnapshotResponse K snap, after_call w s1 (GetSnapshotByName_call (cs_Name req)))"
    if "snapshot = Some snap" "SourceVolumeID snap = cs_SourceVolumeId req" for snap
    using eq that by simp
  have found_ok: "fst (CreateSnapshot K d req w) =
        Inr \<lparr>Snapshot = \<lparr>SnapshotId = SnapshotID snap, SourceVolumeId = SourceVolumeID snap,
                         SizeBytes = Size snap, csi_CreationTime = ts,
                         csi_ReadyToUse = ReadyToUse snap\<rparr>\<rparr>"
    if "snapshot = Some snap" "SourceVolumeID snap = cs_SourceVolumeId req"
      "TimestampProto K (CreationTime snap) = (ts, None)" for snap ts
    using found [OF that(1,2)] newCreateSnapshotResponse_ok [OF that(3)] by simp
  have conflict: "CreateSnapshot K d req w =
      (Inl (Status AlreadyExists
         (Formatted ''Snapshot %s already exists for different volume (%s)''
            [ArgString (cs_Name req), ArgString (SourceVolumeID snap)])),
       after_call w s1 (GetSnapshotByName_call (cs_Name req)))"
    if "snapshot = Some snap" "SourceVolumeID snap \<noteq> cs_SourceVolumeId req" for snap
    using eq that by simp
  have absent: "CreateSnapshot K d req w =
      (created_snapshot_result K (cs_Name req) snapshot' err',
       after_call (after_call w s1 (GetSnapshotByName_call (cs_Name req))) s2
         (CreateSnapshot_call (cs_SourceVolumeId req) (snapshot_opts K (cs_Name req))))"
    if "snapshot = None"
      "cloud_CreateSnapshot d (cs_SourceVolumeId req) (snapshot_opts K (cs_Name req)) s1 =
         ((snapshot', err'), s2)" for snapshot' err' s2
    using eq that by simp
  show ?thesis
    using found found_ok conflict absent by blast
qed

lemma lookup_snap:
  "cloud_GetSnapshotByName (memCloud pkg0) ''snap-1'' (backend (world_snap sn)) =
     ((Some sn, None), backend (world_snap sn))"
  by (simp add: memCloud_def mem_GetSnapshotByName_def world_snap_def)

lemma lookup_snap_absent:
  "cloud_GetSnapshotByName (memCloud pkg0) ''snap-1'' (backend world0) =
     ((None, Some ErrNotFound), backend world0)"
  by (simp add: memCloud_def mem_GetSnapshotByName_def world0_def)

lemma snap0_time: "TimestampProto pkg0 (CreationTime snap0) =
    (Some \<lparr>Seconds = 1540000000, Nanos = 0\<rparr>, None)"
  by (simp add: pkg0_def sample_TimestampProto_def snap0_def)

lemma snap_late_time: "TimestampProto pkg0 (CreationTime snap_late) =
    (None, Some (ErrOther ''timestamp out of range''))"
  by (simp add: pkg0_def sample_TimestampProto_def snap_late_def snap0_def)

theorem CreateSnapshot_lookup_classification_witness:
  "CreateSnapshot pkg0 (memCloud pkg0) (snap_req ''snap-1'' ''vol-1'') (world_snap snap0) =
     (Inr \<lparr>Snapshot = \<lparr>SnapshotId = ''snap-id-1'', SourceVolumeId = ''vol-1'', SizeBytes = GiB,
                      csi_CreationTime = Some \<lparr>Seconds = 1540000000, Nanos = 0\<rparr>,
                      csi_ReadyToUse = False\<rparr>\<rparr>,
      after_call (world_snap snap0) (backend (world_snap snap0)) (GetSnapshotByName_call ''snap-1''))
   \<and> CreateSnapshot pkg0 (memCloud pkg0) (snap_req ''snap-1'' ''vol-2'') (world_snap snap0) =
       (Inl (Status AlreadyExists
          (Formatted ''Snapshot %s already exists for different volume (%s)''
             [ArgString ''snap-1'', ArgString ''vol-1''])),
        after_call (world_snap snap0) (backend (world_snap snap0)) (GetSnapshotByName_call ''snap-1''))
   \<and> calls (snd (CreateSnapshot pkg0 (memCloud pkg0) (snap_req ''snap-1'' ''vol-1'') world0)) =
       [GetSnapshotByName_call ''snap-1'',
        CreateSnapshot_call ''vol-1'' (snapshot_opts pkg0 ''snap-1'')]"
proof -
  have r1: "cs_Name (snap_req ''snap-1'' v) = ''snap-1''" "cs_SourceVolumeId (snap_req ''snap-1'' v) = v" for v
    by (simp_all add: snap_req_def)
  have src: "SourceVolumeID snap0 = ''vol-1''"
    by (simp add: snap0_def)
  note found = CreateSnapshot_lookup_classification
      [of "snap_req ''snap-1'' ''vol-1''" "memCloud pkg0" "world_snap snap0" "Some snap0" None
          "backend (world_snap snap0)" pkg0]
  note conflict = CreateSnapshot_lookup_classification
      [of "snap_req ''snap-1'' ''vol-2''" "memCloud pkg0" "world_snap snap0" "Some snap0" None
          "backend (world_snap snap0)" pkg0]
  note absent = CreateSnapshot_lookup_classification
      [of "snap_req ''snap-1'' ''vol-1''" "memCloud pkg0" world0 None "Some ErrNotFound"
          "backend world0" pkg0]
  have a: "CreateSnapshot pkg0 (memCloud pkg0) (snap_req ''snap-1'' ''vol-1'') (world_snap snap0) =
     (Inr \<lparr>Snapshot = \<lparr>SnapshotId = ''snap-id-1'', SourceVolumeId = ''vol-1'', SizeBytes = GiB,
                      csi_CreationTime = Some \<lparr>Seconds = 1540000000, Nanos = 0\<rparr>,
                      csi_ReadyToUse = False\<rparr>\<rparr>,
      after_call (world_snap snap0) (backend (world_snap snap0)) (GetSnapshotByName_call ''snap-1''))"
    using found lookup_snap [of snap0] newCreateSnapshotResponse_ok [OF snap0_time]
    by (simp add: r1 src) (simp add: snap0_def)
  have b: "CreateSnapshot pkg0 (memCloud pkg0) (snap_req ''snap-1'' ''vol-2'') (world_snap snap0) =
       (Inl (Status AlreadyExists
          (Formatted ''Snapshot %s already exists for different volume (%s)''
             [ArgString ''snap-1'', ArgString ''vol-1''])),
        after_call (world_snap snap0) (backend (world_snap snap0)) (GetSnapshotByName_call ''snap-1''))"
    using conflict lookup_snap [of snap0]
    by (simp add: r1 src)
  have c: "calls (snd (CreateSnapshot pkg0 (memCloud pkg0) (snap_req ''snap-1'' ''vol-1'') world0)) =
       [GetSnapshotByName_call ''snap-1'',
        CreateSnapshot_call ''vol-1'' (snapshot_opts pkg0 ''snap-1'')]"
    using absent lookup_snap_absent
    by (simp add: r1 after_call_def memCloud_def mem_CreateSnapshot_def Let_def world0_def)
  from a b c show ?thesis by blast
qed

text \<open>
  As first stated, the call succeeds for every found snapshot with the requested source
  volume. For a record whose creation time has no protocol representation, the call fails.
\<close>

theorem CreateSnapshot_found_matching_counterexample:
  "fst (CreateSnapshot pkg0 (memCloud pkg0) (snap_req ''snap-1'' ''vol-1'') (world_snap snap_late)) =
     Inl (Unwrapped (ErrOther ''timestamp out of range''))"
  by (simp add: CreateSnapshot_def snap_req_def invoke_def lookup_snap CreateSnapshot_lookup_error_def
      newCreateSnapshotResponse_def snap_late_time Let_def)
     (simp add: snap_late_def snap0_def)

text \<open>
  C9 (amended). For every CreateSnapshot call that reaches response translation, on the
  replay path and on the creation path, a creation timestamp that fails to convert makes
  the whole call fail and no snapshot descriptor is returned; the error returned is the
  conversion error itself, handed on without a status code.
\<close>

theorem CreateSnapshot_timestamp_failure:
  assumes name: "cs_Name req \<noteq> []" and vol: "cs_SourceVolumeId req \<noteq> []"
    and lookup: "cloud_GetSnapshotByName d (cs_Name req) (backend w) = ((snapshot, err), s1)"
    and err: "err = None \<or> err = Some ErrNotFound"
  shows "(\<forall>snap ts e.
            snapshot = Some snap \<and> SourceVolumeID snap = cs_SourceVolumeId req
            \<and> TimestampProto K (CreationTime snap) = (ts, Some e) \<longrightarrow>
            CreateSnapshot K d req w =
              (Inl (Unwrapped e), after_call w s1 (GetSnapshotByName_call (cs_Name req))))
       \<and> (\<forall>snap ts e s2.
            snapshot = None
            \<and> cloud_CreateSnapshot d (cs_SourceVolumeId req) (snapshot_opts K (cs_Name req)) s1 =
                 ((Some snap, None), s2)
            \<and> TimestampProto K (CreationTime snap) = (ts, Some e) \<longrightarrow>
            CreateSnapshot K d req w =
              (Inl (Unwrapped e),
               after_call (after_call w s1 (GetSnapshotByName_call (cs_Name req))) s2
                 (CreateSnapshot_call (cs_SourceVolumeId req) (snapshot_opts K (cs_Name req)))))"
proof -
  note eq = CreateSnapshot_after_lookup [OF name vol lookup err, of K]
  have replay: "CreateSnapshot K d req w =
      (Inl (Unwrapped e), after_call w s1 (GetSnapshotByName_call (cs_Name req)))"
    if "snapshot = Some snap" "SourceVolumeID snap = cs_SourceVolumeId req"
      "TimestampProto K (CreationTime snap) = (ts, Some e)" for snap ts e
    using eq that(1,2) newCreateSnapshotResponse_failed [OF that(3)] by simp
  have fresh: "CreateSnapshot K d req w =
      (Inl (Unwrapped e),
       after_call (after_call w s1 (GetSnapshotByName_call (cs_Name req))) s2
         (CreateSnapshot_call (cs_SourceVolumeId req) (snapshot_opts K (cs_Name req))))"
    if "snapshot = None"
      "cloud_CreateSnapshot d (cs_SourceVolumeId req) (snapshot_opts K (cs_Name req)) s1 =
         ((Some snap, None), s2)"
      "TimestampProto K (CreationTime snap) = (ts, Some e)" for snap ts e s2
    using eq that(1,2) newCreateSnapshotResponse_failed [OF that(3)]
    by (simp add: created_snapshot_result_def)
  show ?thesis
    using replay fresh by blast
qed

text \<open>
  As first stated, the failure is classified as an internal error. The call returns the
  converter's error as it is, not a status with the Internal code; here on the creation
  path, after the backend has created the snapshot.
\<close>

theorem CreateSnapshot_timestamp_failure_counterexample:
  "CreateSnapshot pkg0 lateCloud (snap_req ''snap-1'' ''vol-1'') world0 =
     (Inl (Unwrapped (ErrOther ''timestamp out of range'')),
      \<lparr>backend = backend world0,
       calls = [GetSnapshotByName_call ''snap-1'',
                CreateSnapshot_call ''vol-1'' (snapshot_opts pkg0 ''snap-1'')]\<rparr>)"
  by (simp add: CreateSnapshot_def snap_req_def invoke_def lateCloud_def memCloud_def
      mem_GetSnapshotByName_def world0_def CreateSnapshot_lookup_error_def snapshot_opts_def
      newCreateSnapshotResponse_def snap_late_time Let_def)

theorem CreateSnapshot_timestamp_failure_witness:
  "CreateSnapshot pkg0 (memCloud pkg0) (snap_req ''snap-1'' ''vol-1'') (world_snap snap_late) =
     (Inl (Unwrapped (ErrOther ''timestamp out of range'')),
      after_call (world_snap snap_late) (backend (world_snap snap_late))
        (GetSnapshotByName_call ''snap-1''))
   \<and> CreateSnapshot pkg0 lateCloud (snap_req ''snap-1'' ''vol-1'') world0 =
       (Inl (Unwrapped (ErrOther ''timestamp out of range'')),
        after_call (after_call world0 (backend world0) (GetSnapshotByName_call ''snap-1''))
          (backend world0) (CreateSnapshot_call ''vol-1'' (snapshot_opts pkg0 ''snap-1'')))"
proof -
  have r1: "cs_Name (snap_req ''snap-1'' v) = ''snap-1''" "cs_SourceVolumeId (snap_req ''snap-1'' v) = v" for v
    by (simp_all add: snap_req_def)
  have src: "SourceVolumeID snap_late = ''vol-1''"
    by (simp add: snap_late_def snap0_def)
  have look: "cloud_GetSnapshotByName lateCloud ''snap-1'' (backend world0) =
     ((None, Some ErrNotFound), backend world0)"
    using lookup_snap_absent by (simp add: lateCloud_def)
  have create: "cloud_CreateSnapshot lateCloud ''vol-1'' (snapshot_opts pkg0 ''snap-1'') (backend world0) =
     ((Some snap_late, None), backend world0)"
    by (simp add: lateCloud_def)
  note replay = CreateSnapshot_timestamp_failure
      [of "snap_req ''snap-1'' ''vol-1''" "memCloud pkg0" "world_snap snap_late" "Some snap_late" None
          "backend (world_snap snap_late)" pkg0, THEN conjunct1, rule_format,
       of snap_late None "ErrOther ''timestamp out of range''"]
  note fresh = CreateSnapshot_timestamp_failure
      [of "snap_req ''snap-1'' ''vol-1''" lateCloud world0 None "Some ErrNotFound"
          "backend world0" pkg0, THEN conjunct2, rule_format,
       of snap_late "backend world0" None "ErrOther ''timestamp out of range''"]
  have a: "CreateSnapshot pkg0 (memCloud pkg0) (snap_req ''snap-1'' ''vol-1'') (world_snap snap_late) =
     (Inl (Unwrapped (ErrOther ''timestamp out of range'')),
      after_call (world_snap snap_late) (backend (world_snap snap_late))
        (GetSnapshotByName_call ''snap-1''))"
    using replay lookup_snap [of snap_late] snap_late_time by (simp add: r1 src)
  have b: "CreateSnapshot pkg0 lateCloud (snap_req ''snap-1'' ''vol-1'') world0 =
       (Inl (Unwrapped (ErrOther ''timestamp out of range'')),
        after_call (after_call world0 (backend world0) (GetSnapshotByName_call ''snap-1''))
          (backend world0) (CreateSnapshot_call ''vol-1'' (snapshot_opts pkg0 ''snap-1'')))"
    using fresh look create snap_late_time by (simp add: r1)
  from a b show ?thesis by blast
qed

section \<open>Topology selection\<close>

lemma scanTopologies_zones_under:
  "scanTopologies key ts = (case zones_under key ts of [] \<Rightarrow> None | zone # _ \<Rightarrow> Some zone)"
  by (induction ts) (simp_all add: zones_under_def List.map_filter_simps split: option.splits)

text \<open>
  C6. The topology selector is a function of the requirement alone, and it is the
  selection rule of the specification: the first zone value under the topology-zone key
  in the preferred sequence; if there is none, the first one in the requisite sequence;
  if there is none either, or no requirement is given, the empty string.
\<close>

theorem pickAvailabilityZone_is_spec_select_zone:
  "pickAvailabilityZone K requirement = spec_select_zone (TopologyKey K) requirement"
  by (simp add: pickAvailabilityZone_def spec_select_zone_def scanTopologies_zones_under
      split: option.splits list.splits)

theorem pickAvailabilityZone_is_spec_select_zone_witness:
  "pickAvailabilityZone pkg0 (Some \<lparr>Requisite = [topo ''b''], Preferred = [topo ''a'']\<rparr>) = ''a''
   \<and> pickAvailabilityZone pkg0 (Some \<lparr>Requisite = [topo ''b''], Preferred = []\<rparr>) = ''b''
   \<and> pickAvailabilityZone pkg0 (Some \<lparr>Requisite = [], Preferred = []\<rparr>) = []
   \<and> pickAvailabilityZone pkg0 None = []
   \<and> pickAvailabilityZone pkg0
        (Some \<lparr>Requisite = [topo ''b''],
               Preferred = [\<lparr>Segments = [''rack'' \<mapsto> ''r1'']\<rparr>, topo ''c'', topo ''a'']\<rparr>) = ''c''"
  by (simp add: pickAvailabilityZone_is_spec_select_zone spec_select_zone_def zones_under_def
      List.map_filter_simps topo_def pkg0_def)

section \<open>Deletion\<close>

text \<open>
  C5. Deletion is idempotent. For a non-empty volume id or snapshot id, DeleteVolume and
  DeleteSnapshot call the backend's delete once and return the empty response when it
  reports success or not-found; every other backend error gives an Internal status. A
  delete repeated on a resource that is already removed therefore succeeds.
\<close>

theorem Delete_not_found_is_success:
  assumes "dv_VolumeId vreq \<noteq> []"
    and "cloud_DeleteDisk d (dv_VolumeId vreq) (backend w) = ((ok, err), s1)"
    and "ds_SnapshotId sreq \<noteq> []"
    and "cloud_DeleteSnapshot d (ds_SnapshotId sreq) (backend w') = ((ok', err'), s1')"
  shows "(err = None \<or> err = Some ErrNotFound \<longrightarrow>
            DeleteVolume d vreq w = (Inr (), after_call w s1 (DeleteDisk_call (dv_VolumeId vreq))))
       \<and> (\<forall>e. err = Some e \<and> e \<noteq> ErrNotFound \<longrightarrow>
            DeleteVolume d vreq w =
              (Inl (Status Internal
                 (Formatted ''Could not delete volume ID %q: %v''
                    [ArgString (dv_VolumeId vreq), ArgError e])),
               after_call w s1 (DeleteDisk_call (dv_VolumeId vreq))))
       \<and> (err' = None \<or> err' = Some ErrNotFound \<longrightarrow>
            DeleteSnapshot d sreq w' =
              (Inr (), after_call w' s1' (DeleteSnapshot_call (ds_SnapshotId sreq))))
       \<and> (\<forall>e. err' = Some e \<and> e \<noteq> ErrNotFound \<longrightarrow>
            DeleteSnapshot d sreq w' =
              (Inl (Status Internal
                 (Formatted ''Could not delete snapshot ID %q: %v''
                    [ArgString (ds_SnapshotId sreq), ArgError e])),
               after_call w' s1' (DeleteSnapshot_call (ds_SnapshotId sreq))))"
  using assms
  by (auto simp: DeleteVolume_def DeleteSnapshot_def invoke_def after_call_def Let_def)

theorem Delete_not_found_is_success_witness:
  "DeleteVolume (memCloud pkg0) \<lparr>dv_VolumeId = ''vol-pvc-1''\<rparr> world1 =
     (Inr (), after_call world1 (backend world0) (DeleteDisk_call ''vol-pvc-1''))
   \<and> DeleteVolume (memCloud pkg0) \<lparr>dv_VolumeId = ''vol-pvc-1''\<rparr>
        (after_call world1 (backend world0) (DeleteDisk_call ''vol-pvc-1'')) =
       (Inr (), after_call (after_call world1 (backend world0) (DeleteDisk_call ''vol-pvc-1''))
                  (backend world0) (DeleteDisk_call ''vol-pvc-1''))
   \<and> DeleteSnapshot (memCloud pkg0) \<lparr>ds_SnapshotId = ''snap-id-1''\<rparr> world0 =
       (Inr (), after_call world0 (backend world0) (DeleteSnapshot_call ''snap-id-1''))
   \<and> DeleteVolume timeoutCloud \<lparr>dv_VolumeId = ''vol-pvc-1''\<rparr> world1 =
       (Inl (Status Internal
          (Formatted ''Could not delete volume ID %q: %v''
             [ArgString ''vol-pvc-1'', ArgError (ErrOther ''timeout'')])),
        after_call world1 (backend world1) (DeleteDisk_call ''vol-pvc-1''))
   \<and> DeleteSnapshot timeoutCloud \<lparr>ds_SnapshotId = ''snap-id-1''\<rparr> world0 =
       (Inl (Status Internal
          (Formatted ''Could not delete snapshot ID %q: %v''
             [ArgString ''snap-id-1'', ArgError (ErrOther ''timeout'')])),
        after_call world0 (backend world0) (DeleteSnapshot_call ''snap-id-1''))"
proof -
  let ?w2 = "after_call world1 (backend world0) (DeleteDisk_call ''vol-pvc-1'')"
  have del1: "cloud_DeleteDisk (memCloud pkg0) ''vol-pvc-1'' (backend world1) =
      ((True, None), backend world0)"
    by (simp add: memCloud_def mem_DeleteDisk_def world1_def world0_def vol0_def)
  have del2: "cloud_DeleteDisk (memCloud pkg0) ''vol-pvc-1'' (backend ?w2) =
      ((False, Some ErrNotFound), backend world0)"
    by (simp add: memCloud_def mem_DeleteDisk_def after_call_def world0_def)
  have dels: "cloud_DeleteSnapshot (memCloud pkg0) ''snap-id-1'' (backend world0) =
      ((False, Some ErrNotFound), backend world0)"
    by (simp add: memCloud_def mem_DeleteSnapshot_def world0_def)
  have tdel: "cloud_DeleteDisk timeoutCloud ''vol-pvc-1'' (backend world1) =
      ((False, Some (ErrOther ''timeout'')), backend world1)"
    and tdels: "cloud_DeleteSnapshot timeoutCloud ''snap-id-1'' (backend world0) =
      ((False, Some (ErrOther ''timeout'')), backend world0)"
    by (simp_all add: timeoutCloud_def)
  from Delete_not_found_is_success
      [of "\<lparr>dv_VolumeId = ''vol-pvc-1''\<rparr>" "memCloud pkg0" world1 True None "backend world0"
          "\<lparr>ds_SnapshotId = ''snap-id-1''\<rparr>" world0 False "Some ErrNotFound" "backend world0"]
    Delete_not_found_is_success
      [of "\<lparr>dv_VolumeId = ''vol-pvc-1''\<rparr>" "memCloud pkg0" ?w2 False "Some ErrNotFound" "backend world0"
          "\<lparr>ds_SnapshotId = ''snap-id-1''\<rparr>" world0 False "Some ErrNotFound" "backend world0"]
    Delete_not_found_is_success
      [of "\<lparr>dv_VolumeId = ''vol-pvc-1''\<rparr>" timeoutCloud world1 False "Some (ErrOther ''timeout'')"
          "backend world1"
          "\<lparr>ds_SnapshotId = ''snap-id-1''\<rparr>" world0 False "Some (ErrOther ''timeout'')" "backend world0"]
    del1 del2 dels tdel tdels
  show ?thesis by simp
qed

section \<open>Publishing and capability validation\<close>

lemma supported_modes_eq: "supported_modes = {SINGLE_NODE_WRITER}"
  by (simp add: supported_modes_def volumeCaps_def)

lemma foundAll_loop_iff:
  "foundAll_loop volCaps b \<longleftrightarrow> b \<and> (\<forall>c \<in> set volCaps. hasSupport c)"
  by (induction volCaps arbitrary: b) auto

lemma hasSupport_iff: "hasSupport c \<longleftrightarrow> GetMode (AccessMode c) \<in> supported_modes"
  by (auto simp: hasSupport_def volumeCaps_def supported_modes_def)

lemma isValidVolumeCapabilities_iff:
  "isValidVolumeCapabilities volCaps \<longleftrightarrow>
     (\<forall>c \<in> set volCaps. GetMode (AccessMode c) \<in> supported_modes)"
  by (simp add: isValidVolumeCapabilities_def foundAll_loop_iff hasSupport_iff)

text \<open>
  C7. ControllerPublishVolume checks before it attaches. For a request with a volume id,
  a node id and a capability: a capability whose access mode is outside the supported set
  is an invalid request, with no backend call; then the instance-existence check, whose
  negative answer is a not-found error; then the volume lookup by id, whose not-found
  outcome is a not-found error; only then the attach call. An attach that reports
  already-exists fails with AlreadyExists; a successful attach returns the backend's
  device path under the device-path key of the publish context. The trace of backend
  calls shows the order.
\<close>

theorem ControllerPublishVolume_checks_before_attach:
  assumes "cp_VolumeId req \<noteq> []" and "cp_NodeId req \<noteq> []"
    and "cp_VolumeCapability req = Some volCap"
  shows "(GetMode (AccessMode volCap) \<notin> supported_modes \<longrightarrow>
            ControllerPublishVolume K d req w =
              (Inl (Status InvalidArgument (Text ''Volume capability not supported'')), w))
       \<and> (GetMode (AccessMode volCap) \<in> supported_modes \<longrightarrow>
            (\<forall>exist s1. cloud_IsExistInstance d (cp_NodeId req) (backend w) = (exist, s1) \<longrightarrow>
               (\<not> exist \<longrightarrow>
                  ControllerPublishVolume K d req w =
                    (Inl (Status NotFound (Formatted ''Instance %q not found'' [ArgString (cp_NodeId req)])),
                     after_call w s1 (IsExistInstance_call (cp_NodeId req))))
             \<and> (exist \<longrightarrow>
                  (\<forall>disk err s2. cloud_GetDiskByID d (cp_VolumeId req) s1 = ((disk, err), s2) \<longrightarrow>
                     (err = Some ErrNotFound \<longrightarrow>
                        ControllerPublishVolume K d req w =
                          (Inl (Status NotFound (Text ''Volume not found'')),
                           after_call (after_call w s1 (IsExistInstance_call (cp_NodeId req))) s2
                             (GetDiskByID_call (cp_VolumeId req))))
                   \<and> (err = None \<longrightarrow>
                        (\<forall>devicePath err' s3.
                           cloud_AttachDisk d (cp_VolumeId req) (cp_NodeId req) s2 =
                             ((devicePath, err'), s3) \<longrightarrow>
                           (err' = Some ErrAlreadyExists \<longrightarrow>
                              ControllerPublishVolume K d req w =
                                (Inl (Status AlreadyExists (ErrorText ErrAlreadyExists)),
                                 after_call
                                   (after_call (after_call w s1 (IsExistInstance_call (cp_NodeId req))) s2
                                      (GetDiskByID_call (cp_VolumeId req))) s3
                                   (AttachDisk_call (cp_VolumeId req) (cp_NodeId req))))
                         \<and> (err' = None \<longrightarrow>
                              ControllerPublishVolume K d req w =
                                (Inr \<lparr>PublishContext = [DevicePathKey K \<mapsto> devicePath]\<rparr>,
                                 after_call
                                   (after_call (after_call w s1 (IsExistInstance_call (cp_NodeId req))) s2
                                      (GetDiskByID_call (cp_VolumeId req))) s3
                                   (AttachDisk_call (cp_VolumeId req) (cp_NodeId req))))))))))"
  using assms
  by (simp add: ControllerPublishVolume_def isValidVolumeCapabilities_iff invoke_def
      after_call_def Let_def)

text \<open>
  C8. ValidateVolumeCapabilities. For a request with a volume id and at least one
  capability: when the lookup by id reports not-found the call fails with a not-found
  error; when the volume exists the call succeeds, and the confirmation is the full list
  of requested capabilities if every one of them has a supported access mode, and is
  absent otherwise.
\<close>

theorem ValidateVolumeCapabilities_confirms_iff_supported:
  assumes "vv_VolumeId req \<noteq> []" and "vv_VolumeCapabilities req \<noteq> []"
    and "cloud_GetDiskByID d (vv_VolumeId req) (backend w) = ((disk, err), s1)"
  shows "(err = Some ErrNotFound \<longrightarrow>
            ValidateVolumeCapabilities d req w =
              (Inl (Status NotFound (Text ''Volume not found'')),
               after_call w s1 (GetDiskByID_call (vv_VolumeId req))))
       \<and> (err = None \<longrightarrow>
            ValidateVolumeCapabilities d req w =
              (Inr \<lparr>Confirmed =
                     (if \<forall>c \<in> set (vv_VolumeCapabilities req). GetMode (AccessMode c) \<in> supported_modes
                      then Some \<lparr>VolumeCapabilities = vv_VolumeCapabilities req\<rparr>
                      else None)\<rparr>,
               after_call w s1 (GetDiskByID_call (vv_VolumeId req))))"
  using assms
  by (simp add: ValidateVolumeCapabilities_def isValidVolumeCapabilities_iff invoke_def
      after_call_def Let_def)

lemma mem_publish_facts:
  "cloud_IsExistInstance (memCloud pkg0) ''i-1'' (backend world1) = (True, backend world1)"
  "cloud_IsExistInstance (memCloud pkg0) ''i-2'' (backend world1) = (False, backend world1)"
  "cloud_GetDiskByID (memCloud pkg0) ''vol-pvc-1'' (backend world1) = ((Some vol0, None), backend world1)"
  "cloud_GetDiskByID (memCloud pkg0) ''vol-x'' (backend world1) = ((None, Some ErrNotFound), backend world1)"
  "cloud_AttachDisk (memCloud pkg0) ''vol-pvc-1'' ''i-1'' (backend world1) =
     ((''/dev/xvdba'', None), (backend world1)\<lparr>attachments := [(''vol-pvc-1'', ''i-1'')]\<rparr>)"
  by (simp_all add: memCloud_def mem_IsExistInstance_def mem_GetDiskByID_def mem_AttachDisk_def
      world1_def vol0_def)

lemma mem_attached_facts:
  "cloud_IsExistInstance (memCloud pkg0) ''i-1'' (backend world_attached) = (True, backend world_attached)"
  "cloud_GetDiskByID (memCloud pkg0) ''vol-pvc-1'' (backend world_attached) =
     ((Some vol0, None), backend world_attached)"
  "cloud_AttachDisk (memCloud pkg0) ''vol-pvc-1'' ''i-1'' (backend world_attached) =
     (([], Some ErrAlreadyExists), backend world_attached)"
  by (simp_all add: memCloud_def mem_IsExistInstance_def mem_GetDiskByID_def mem_AttachDisk_def
      world_attached_def world1_def vol0_def)

lemma sample_modes:
  "GetMode (AccessMode writer) \<in> supported_modes"
  "GetMode (AccessMode multi_writer) \<notin> supported_modes"
  by (simp_all add: supported_modes_eq writer_def multi_writer_def GetMode_def)

theorem ControllerPublishVolume_checks_before_attach_witness:
  "ControllerPublishVolume pkg0 (memCloud pkg0) (publish_req ''vol-pvc-1'' ''i-1'' writer) world1 =
     (Inr \<lparr>PublishContext = [''devicePath'' \<mapsto> ''/dev/xvdba'']\<rparr>,
      \<lparr>backend = (backend world1)\<lparr>attachments := [(''vol-pvc-1'', ''i-1'')]\<rparr>,
       calls = calls world1 @ [IsExistInstance_call ''i-1'', GetDiskByID_call ''vol-pvc-1'',
                               AttachDisk_call ''vol-pvc-1'' ''i-1'']\<rparr>)
   \<and> ControllerPublishVolume pkg0 (memCloud pkg0) (publish_req ''vol-pvc-1'' ''i-1'' multi_writer) world1 =
       (Inl (Status InvalidArgument (Text ''Volume capability not supported'')), world1)
   \<and> ControllerPublishVolume pkg0 (memCloud pkg0) (publish_req ''vol-pvc-1'' ''i-2'' writer) world1 =
       (Inl (Status NotFound (Formatted ''Instance %q not found'' [ArgString ''i-2''])),
        \<lparr>backend = backend world1, calls = calls world1 @ [IsExistInstance_call ''i-2'']\<rparr>)
   \<and> ControllerPublishVolume pkg0 (memCloud pkg0) (publish_req ''vol-x'' ''i-1'' writer) world1 =
       (Inl (Status NotFound (Text ''Volume not found'')),
        \<lparr>backend = backend world1,
         calls = calls world1 @ [IsExistInstance_call ''i-1'', GetDiskByID_call ''vol-x'']\<rparr>)
   \<and> ControllerPublishVolume pkg0 (memCloud pkg0) (publish_req ''vol-pvc-1'' ''i-1'' writer) world_attached =
       (Inl (Status AlreadyExists (ErrorText ErrAlreadyExists)),
        \<lparr>backend = backend world_attached,
         calls = calls world_attached @ [IsExistInstance_call ''i-1'', GetDiskByID_call ''vol-pvc-1'',
                                         AttachDisk_call ''vol-pvc-1'' ''i-1'']\<rparr>)"
proof -
  have req: "cp_VolumeId (publish_req v n c) = v" "cp_NodeId (publish_req v n c) = n"
    "cp_VolumeCapability (publish_req v n c) = Some c" for v n c
    by (simp_all add: publish_req_def)
  have key: "DevicePathKey pkg0 = ''devicePath''"
    by (simp add: pkg0_def)
  note t = ControllerPublishVolume_checks_before_attach [where K = pkg0 and d = "memCloud pkg0"]
  have a: "ControllerPublishVolume pkg0 (memCloud pkg0) (publish_req ''vol-pvc-1'' ''i-1'' writer) world1 =
     (Inr \<lparr>PublishContext = [''devicePath'' \<mapsto> ''/dev/xvdba'']\<rparr>,
      \<lparr>backend = (backend world1)\<lparr>attachments := [(''vol-pvc-1'', ''i-1'')]\<rparr>,
       calls = calls world1 @ [IsExistInstance_call ''i-1'', GetDiskByID_call ''vol-pvc-1'',
                               AttachDisk_call ''vol-pvc-1'' ''i-1'']\<rparr>)"
    using t [of "publish_req ''vol-pvc-1'' ''i-1'' writer" writer world1]
    by (auto simp add: req key sample_modes mem_publish_facts after_call_def)
  have b: "ControllerPublishVolume pkg0 (memCloud pkg0) (publish_req ''vol-pvc-1'' ''i-1'' multi_writer) world1 =
       (Inl (Status InvalidArgument (Text ''Volume capability not supported'')), world1)"
    using t [of "publish_req ''vol-pvc-1'' ''i-1'' multi_writer" multi_writer world1]
    by (simp add: req sample_modes)
  have c: "ControllerPublishVolume pkg0 (memCloud pkg0) (publish_req ''vol-pvc-1'' ''i-2'' writer) world1 =
       (Inl (Status NotFound (Formatted ''Instance %q not found'' [ArgString ''i-2''])),
        \<lparr>backend = backend world1, calls = calls world1 @ [IsExistInstance_call ''i-2'']\<rparr>)"
    using t [of "publish_req ''vol-pvc-1'' ''i-2'' writer" writer world1]
    by (auto simp add: req sample_modes mem_publish_facts after_call_def)
  have d: "ControllerPublishVolume pkg0 (memCloud pkg0) (publish_req ''vol-x'' ''i-1'' writer) world1 =
       (Inl (Status NotFound (Text ''Volume not found'')),
        \<lparr>backend = backend world1,
         calls = calls world1 @ [IsExistInstance_call ''i-1'', GetDiskByID_call ''vol-x'']\<rparr>)"
    using t [of "publish_req ''vol-x'' ''i-1'' writer" writer world1]
    by (auto simp add: req sample_modes mem_publish_facts after_call_def)
  have e: "ControllerPublishVolume pkg0 (memCloud pkg0) (publish_req ''vol-pvc-1'' ''i-1'' writer) world_attached =
       (Inl (Status AlreadyExists (ErrorText ErrAlreadyExists)),
        \<lparr>backend = backend world_attached,
         calls = calls world_attached @ [IsExistInstance_call ''i-1'', GetDiskByID_call ''vol-pvc-1'',
                                         AttachDisk_call ''vol-pvc-1'' ''i-1'']\<rparr>)"
    using t [of "publish_req ''vol-pvc-1'' ''i-1'' writer" writer world_attached]
    by (auto simp add: req sample_modes mem_attached_facts after_call_def)
  from a b c d e show ?thesis by blast
qed

theorem ValidateVolumeCapabilities_confirms_iff_supported_witness:
  "ValidateVolumeCapabilities (memCloud pkg0) (validate_req ''vol-pvc-1'' [writer]) world1 =
     (Inr \<lparr>Confirmed = Some \<lparr>VolumeCapabilities = [writer]\<rparr>\<rparr>,
      \<lparr>backend = backend world1, calls = calls world1 @ [GetDiskByID_call ''vol-pvc-1'']\<rparr>)
   \<and> ValidateVolumeCapabilities (memCloud pkg0) (validate_req ''vol-pvc-1'' [writer, multi_writer]) world1 =
       (Inr \<lparr>Confirmed = None\<rparr>,
        \<lparr>backend = backend world1, calls = calls world1 @ [GetDiskByID_call ''vol-pvc-1'']\<rparr>)
   \<and> ValidateVolumeCapabilities (memCloud pkg0) (validate_req ''vol-x'' [multi_writer]) world1 =
       (Inl (Status NotFound (Text ''Volume not found'')),
        \<lparr>backend = backend world1, calls = calls world1 @ [GetDiskByID_call ''vol-x'']\<rparr>)"
proof -
  have req: "vv_VolumeId (validate_req v cs) = v" "vv_VolumeCapabilities (validate_req v cs) = cs" for v cs
    by (simp_all add: validate_req_def)
  from ValidateVolumeCapabilities_confirms_iff_supported
      [of "validate_req ''vol-pvc-1'' [writer]" "memCloud pkg0" world1 "Some vol0" None "backend world1"]
    ValidateVolumeCapabilities_confirms_iff_supported
      [of "validate_req ''vol-pvc-1'' [writer, multi_writer]" "memCloud pkg0" world1 "Some vol0" None
          "backend world1"]
    ValidateVolumeCapabilities_confirms_iff_supported
      [of "validate_req ''vol-x'' [multi_writer]" "memCloud pkg0" world1 None "Some ErrNotFound"
          "backend world1"]
  show ?thesis
    by (simp add: req sample_modes mem_publish_facts after_call_def)
qed

section \<open>The CreateVolume response\<close>

lemma CreateVolume_Inr_validated:
  assumes "CreateVolume K d req w = (Inr resp, w')"
  shows "\<exists>n. CreateVolume_validated K req n"
proof (cases "CreateVolume_size K (cv_CapacityRange req)")
  case (Inl e)
  with assms show ?thesis
    by (simp add: CreateVolume_def Let_def split: if_splits)
next
  case (Inr n)
  with assms have "cv_Name req \<noteq> []"
    by (auto simp: CreateVolume_def)
  moreover from assms Inr have "cv_VolumeCapabilities req \<noteq> []"
    by (auto simp: CreateVolume_def Let_def split: if_splits)
  moreover from assms Inr have "isValidVolumeCapabilities (cv_VolumeCapabilities req)"
    by (auto simp: CreateVolume_def Let_def split: if_splits)
  ultimately show ?thesis
    using Inr by (auto simp: CreateVolume_validated_def)
qed

lemma newCreateVolumeResponse_fields:
  "VolumeId (Volume (newCreateVolumeResponse K (dk\<lparr>FsType := fs\<rparr>))) = VolumeID dk"
  "VolumeContext (Volume (newCreateVolumeResponse K (dk\<lparr>FsType := fs\<rparr>))) = [FsTypeKey K \<mapsto> fs]"
  "AccessibleTopology (Volume (newCreateVolumeResponse K (dk\<lparr>FsType := fs\<rparr>))) =
     [\<lparr>Segments = [TopologyKey K \<mapsto> AvailabilityZone dk]\<rparr>]"
  by (simp_all add: newCreateVolumeResponse_def)

text \<open>
  C10. In every successful CreateVolume response the volume context holds the
  filesystem-type hint of the current request's parameters under the filesystem-type key,
  whatever the backend record says, and the accessible topology is the one-entry list
  with the zone of the record the response is built from: the disk the lookup returned
  (replay) or the disk the backend's creation returned (fresh creation). The response
  carries that record's identifier.
\<close>

theorem CreateVolume_response_hint_and_topology:
  assumes ok: "CreateVolume K d req w = (Inr resp, w')"
  shows "VolumeContext (Volume resp) = [FsTypeKey K \<mapsto> index (cv_Parameters req) (FsTypeKey K)]
       \<and> (\<exists>n disk.
             CreateVolume_validated K req n
             \<and> ((\<exists>err s1. cloud_GetDiskByName d (cv_Name req) n (backend w) = ((Some disk, err), s1))
                \<or> (\<exists>err s1 opts s2.
                      cloud_GetDiskByName d (cv_Name req) n (backend w) = ((None, err), s1)
                      \<and> cloud_CreateDisk d (cv_Name req) opts s1 = ((Some disk, None), s2)))
             \<and> VolumeId (Volume resp) = VolumeID disk
             \<and> AccessibleTopology (Volume resp) =
                 [\<lparr>Segments = [TopologyKey K \<mapsto> AvailabilityZone disk]\<rparr>])"
proof -
  let ?fs = "index (cv_Parameters req) (FsTypeKey K)"
  from CreateVolume_Inr_validated [OF ok] obtain n where valid: "CreateVolume_validated K req n" ..
  obtain disk err s1 where look: "cloud_GetDiskByName d (cv_Name req) n (backend w) = ((disk, err), s1)"
    by (metis surj_pair)
  let ?w1 = "after_call w s1 (GetDiskByName_call (cv_Name req) n)"
  note eq = CreateVolume_after_lookup [OF valid look]
  from eq ok have no_err: "CreateVolume_lookup_error err = None"
    by (cases "CreateVolume_lookup_error err") simp_all
  have "\<exists>dk. resp = newCreateVolumeResponse K (dk\<lparr>FsType := ?fs\<rparr>)
      \<and> ((\<exists>err s1. cloud_GetDiskByName d (cv_Name req) n (backend w) = ((Some dk, err), s1))
          \<or> (\<exists>err s1 opts s2.
                cloud_GetDiskByName d (cv_Name req) n (backend w) = ((None, err), s1)
                \<and> cloud_CreateDisk d (cv_Name req) opts s1 = ((Some dk, None), s2)))"
  proof (cases disk)
    case (Some dk)
    with eq ok no_err have "resp = newCreateVolumeResponse K (dk\<lparr>FsType := ?fs\<rparr>)"
      by simp
    with look Some show ?thesis by blast
  next
    case None
    with eq ok no_err
    have new: "CreateVolume_new K d req (cv_Name req) n ?fs ?w1 = (Inr resp, w')"
      by simp
    from CreateVolume_new_outcome [of K d req "cv_Name req" n ?fs ?w1]
    show ?thesis
    proof (elim disjE exE conjE)
      fix m
      assume "CreateVolume_new K d req (cv_Name req) n ?fs ?w1 = (Inl (Status InvalidArgument m), ?w1)"
      with new show ?thesis by simp
    next
      fix opts dk' e s'
      assume cr: "cloud_CreateDisk d (cv_Name req) opts (backend ?w1) = ((dk', e), s')"
        and res: "CreateVolume_new K d req (cv_Name req) n ?fs ?w1 =
          (case e of
             Some e \<Rightarrow> Inl (Status Internal
                         (Formatted ''Could not create volume %q: %v'' [ArgString (cv_Name req), ArgError e]))
           | None \<Rightarrow>
               (case dk' of
                  None \<Rightarrow> Inl NilPointerPanic
                | Some dk \<Rightarrow> Inr (newCreateVolumeResponse K (dk\<lparr>FsType := ?fs\<rparr>))),
           after_call ?w1 s' (CreateDisk_call (cv_Name req) opts))"
      from new res have e: "e = None"
        by (cases e) simp_all
      with new res obtain dk where dk: "dk' = Some dk"
        and resp: "resp = newCreateVolumeResponse K (dk\<lparr>FsType := ?fs\<rparr>)"
        by (cases dk') simp_all
      from cr e dk have "cloud_CreateDisk d (cv_Name req) opts s1 = ((Some dk, None), s')"
        by (simp add: after_call_def)
      with look None resp show ?thesis by blast
    qed
  qed
  then obtain dk where resp: "resp = newCreateVolumeResponse K (dk\<lparr>FsType := ?fs\<rparr>)"
    and prov: "(\<exists>err s1. cloud_GetDiskByName d (cv_Name req) n (backend w) = ((Some dk, err), s1))
          \<or> (\<exists>err s1 opts s2.
                cloud_GetDiskByName d (cv_Name req) n (backend w) = ((None, err), s1)
                \<and> cloud_CreateDisk d (cv_Name req) opts s1 = ((Some dk, None), s2))"
    by blast
  have ctx: "VolumeContext (Volume resp) = [FsTypeKey K \<mapsto> ?fs]"
    and vid: "VolumeId (Volume resp) = VolumeID dk"
    and top: "AccessibleTopology (Volume resp) = [\<lparr>Segments = [TopologyKey K \<mapsto> AvailabilityZone dk]\<rparr>]"
    by (simp_all add: resp newCreateVolumeResponse_fields)
  from ctx valid prov vid top show ?thesis by blast
qed

lemma lookup_xfs:
  "cloud_GetDiskByName (memCloud pkg0) (cv_Name req0) (100 * GiB) (backend world_xfs) =
     ((Some vol_xfs, None), backend world_xfs)"
  by (simp add: memCloud_def mem_GetDiskByName_def world_xfs_def req0_def create_req_def vol_xfs_def
      vol0_def GiBToBytes_100)

theorem CreateVolume_response_hint_and_topology_witness:
  "FsType vol_xfs = ''xfs''
   \<and> CreateVolume pkg0 (memCloud pkg0) req0 world_xfs =
       (Inr (newCreateVolumeResponse pkg0 (vol_xfs\<lparr>FsType := ''ext4''\<rparr>)),
        after_call world_xfs (backend world_xfs) (GetDiskByName_call ''pvc-1'' (100 * GiB)))
   \<and> VolumeContext (Volume (newCreateVolumeResponse pkg0 (vol_xfs\<lparr>FsType := ''ext4''\<rparr>))) =
       [''fstype'' \<mapsto> ''ext4'']
   \<and> CreateVolume pkg0 (memCloud pkg0) req0 world0 =
       (Inr (newCreateVolumeResponse pkg0 (vol0\<lparr>FsType := ''ext4''\<rparr>)), world1)
   \<and> VolumeContext (Volume (newCreateVolumeResponse pkg0 (vol0\<lparr>FsType := ''ext4''\<rparr>))) =
       [''fstype'' \<mapsto> ''ext4'']
   \<and> AccessibleTopology (Volume (newCreateVolumeResponse pkg0 (vol0\<lparr>FsType := ''ext4''\<rparr>))) =
       [\<lparr>Segments = [''zone'' \<mapsto> ''a'']\<rparr>]"
proof -
  have fs: "index (cv_Parameters req0) (FsTypeKey pkg0) = ''ext4''"
    and fs': "index (cv_Parameters req0) ''fstype'' = ''ext4''"
    and key: "FsTypeKey pkg0 = ''fstype''" and name: "cv_Name req0 = ''pvc-1''"
    by (simp_all add: pkg0_def req0_def create_req_def index_def)
  have replay: "CreateVolume pkg0 (memCloud pkg0) req0 world_xfs =
       (Inr (newCreateVolumeResponse pkg0 (vol_xfs\<lparr>FsType := ''ext4''\<rparr>)),
        after_call world_xfs (backend world_xfs) (GetDiskByName_call ''pvc-1'' (100 * GiB)))"
    using CreateVolume_replay [OF valid0 lookup_xfs] by (simp only: fs name)
  have a: "VolumeContext (Volume (newCreateVolumeResponse pkg0 (vol_xfs\<lparr>FsType := ''ext4''\<rparr>))) =
       [''fstype'' \<mapsto> ''ext4'']"
    using CreateVolume_response_hint_and_topology [OF replay, THEN conjunct1]
    by (simp only: fs' key)
  have b: "VolumeContext (Volume (newCreateVolumeResponse pkg0 (vol0\<lparr>FsType := ''ext4''\<rparr>))) =
       [''fstype'' \<mapsto> ''ext4'']"
    using CreateVolume_response_hint_and_topology [OF first_call, THEN conjunct1]
    by (simp only: fs' key)
  have c: "AccessibleTopology (Volume (newCreateVolumeResponse pkg0 (vol0\<lparr>FsType := ''ext4''\<rparr>))) =
       [\<lparr>Segments = [''zone'' \<mapsto> ''a'']\<rparr>]"
    by (simp add: newCreateVolumeResponse_def vol0_def pkg0_def)
  have d: "FsType vol_xfs = ''xfs''"
    by (simp add: vol_xfs_def)
  from d replay a first_call b c show ?thesis
    by (intro conjI)
qed

end
